theory Spec2Isabelle
  imports Complex_Main
begin

section \<open>JavaScript values\<close>

text \<open>
  A JavaScript string is a \<^typ>\<open>string\<close>: one \<^typ>\<open>char\<close> per UTF-16 code unit, for
  the code units U+0000 to U+00FF. The character classes below are the ones ECMAScript
  gives these code units: \<open>\s\<close> and \<open>trim\<close> (white space and line terminators),
  \<open>\w\<close>, the line terminators that \<open>.\<close> does not match, and \<open>toLowerCase\<close>.
\<close>

definition is_space :: "char \<Rightarrow> bool" where
  "is_space c = (c \<in> set [CHR 0x09, CHR 0x0A, CHR 0x0B, CHR 0x0C, CHR 0x0D, CHR 0x20, CHR 0xA0])"

definition is_line_terminator :: "char \<Rightarrow> bool" where
  "is_line_terminator c = (c = CHR 0x0A \<or> c = CHR 0x0D)"

definition is_word :: "char \<Rightarrow> bool" where
  "is_word c = (let n = (of_char c :: nat) in
     (48 \<le> n \<and> n \<le> 57) \<or> (65 \<le> n \<and> n \<le> 90) \<or> n = 95 \<or> (97 \<le> n \<and> n \<le> 122))"

definition lower :: "char \<Rightarrow> char" where
  "lower c = (let n = (of_char c :: nat) in
     if (65 \<le> n \<and> n \<le> 90) \<or> (192 \<le> n \<and> n \<le> 214) \<or> (216 \<le> n \<and> n \<le> 222)
     then char_of (n + 32) else c)"

definition toLowerCase :: "string \<Rightarrow> string" where
  "toLowerCase s = map lower s"

definition trim :: "string \<Rightarrow> string" where
  "trim s = rev (dropWhile is_space (rev (dropWhile is_space s)))"

fun includes_str :: "string \<Rightarrow> string \<Rightarrow> bool" where
  "includes_str [] sub = (sub = [])"
| "includes_str (c # cs) sub = (take (length sub) (c # cs) = sub \<or> includes_str cs sub)"

text \<open>\<open>String(n)\<close> for an integral number \<open>n\<close>.\<close>

fun digits :: "nat \<Rightarrow> string" where
  "digits n = (if n < 10 then [char_of (48 + n)]
               else digits (n div 10) @ [char_of (48 + n mod 10)])"

declare digits.simps [simp del]

definition String_of_int :: "int \<Rightarrow> string" where
  "String_of_int n = (if n < 0 then CHR ''-'' # digits (nat (- n)) else digits (nat n))"

text \<open>
  A thrown value: an \<open>Error\<close> with its message and, for the errors of the file
  system, its \<open>code\<close>; or a value that is not an \<open>Error\<close>.
\<close>

datatype error = Error (message: string) (code: "string option") | NonError

definition new_Error :: "string \<Rightarrow> error" where
  "new_Error msg = Error msg None"

text \<open>\<open>error instanceof Error ? error.message : 'Unknown error'\<close>\<close>

definition message_or_unknown :: "error \<Rightarrow> string" where
  "message_or_unknown e = (case e of Error m c \<Rightarrow> m | NonError \<Rightarrow> ''Unknown error'')"

section \<open>Browser instance management\<close>

type_synonym Browser = nat
type_synonym Page = nat
type_synonym LaunchPromise = nat

text \<open>
  What a request does to the world outside the module, in the order it does it.
  \<open>MkdirCalled p\<close> stands for the call of \<open>mkdir\<close> on the directory of the path
  \<open>p\<close>: the event holds the output path, not the name of its directory.
\<close>

record PdfOptions =
  pdf_path :: string
  pdf_format :: string
  pdf_landscape :: bool
  pdf_margin_top :: string
  pdf_margin_bottom :: string
  pdf_margin_left :: string
  pdf_margin_right :: string
  pdf_scale :: real
  pdf_printBackground :: bool
  pdf_displayHeaderFooter :: bool
  pdf_headerTemplate :: "string option"
  pdf_footerTemplate :: "string option"

record HtmlDocument =
  doc_themeCss :: string
  doc_codeHighlightCss :: string
  doc_customCss :: string
  doc_toc :: string
  doc_contentWithIds :: string

datatype event =
    LaunchCalled LaunchPromise
  | BrowserCloseCalled Browser
  | NewPageCalled Browser
  | PageCloseCalled Page
  | MkdirCalled string
  | SetViewportSizeCalled Page
  | SetContentCalled Page HtmlDocument string
  | PdfCalled Page PdfOptions

text \<open>
  The module's variables \<open>browserInstance\<close>, \<open>browserLaunchPromise\<close> and
  \<open>activePages\<close>, and three ghost fields: the number of calls of
  \<open>chromium.launch\<close> so far (it names the next launch promise), the launch promises
  that have not settled yet, and the trace of events.
\<close>

record world =
  browserInstance :: "Browser option"
  browserLaunchPromise :: "LaunchPromise option"
  activePages :: int
  launchesStarted :: nat
  launchesInFlight :: "LaunchPromise list"
  trace :: "event list"

definition MAX_CONCURRENT_PAGES :: int where
  "MAX_CONCURRENT_PAGES = 10"

text \<open>
  \<open>isBrowserHealthy\<close>: \<open>browser.contexts()\<close> may throw; otherwise it returns an
  array, which is never \<open>undefined\<close>, and the answer is \<open>browser.isConnected()\<close>.
\<close>

record BrowserProbe =
  contextsThrows :: bool
  isConnected :: bool

definition isBrowserHealthy :: "BrowserProbe \<Rightarrow> bool" where
  "isBrowserHealthy b = (if contextsThrows b then False else (True \<and> isConnected b))"

text \<open>
  \<open>getBrowser\<close> runs in pieces, each one uninterrupted: from its call to its first
  \<open>await\<close> or \<open>return\<close> (\<open>getBrowser_enter\<close>), from the answer of the health
  check to its \<open>return\<close> (\<open>getBrowser_resume\<close>), and, inside the launch promise,
  from the answer of \<open>chromium.launch\<close> to the end of its \<open>finally\<close>
  (\<open>launch_settle\<close>). Other callers may run between two pieces.
\<close>

datatype getBrowser_result = Ticket LaunchPromise | Instance "Browser option"

datatype getBrowser_state = Done getBrowser_result | AwaitingHealth Browser

text \<open>
  Step 3: the async function expression runs up to \<open>await chromium.launch(...)\<close>,
  and its promise is stored in \<open>browserLaunchPromise\<close>.
\<close>

definition startLaunch :: "world \<Rightarrow> getBrowser_result \<times> world" where
  "startLaunch w =
     (let p = launchesStarted w in
      (Ticket p,
       w\<lparr>browserLaunchPromise := Some p,
         launchesStarted := p + 1,
         launchesInFlight := p # launchesInFlight w,
         trace := trace w @ [LaunchCalled p]\<rparr>))"

definition getBrowser_enter :: "world \<Rightarrow> getBrowser_state \<times> world" where
  "getBrowser_enter w =
     (case browserLaunchPromise w of
        Some p \<Rightarrow> (Done (Ticket p), w)
      | None \<Rightarrow>
          (case browserInstance w of
             Some b \<Rightarrow> (AwaitingHealth b, w)
           | None \<Rightarrow> (let (r, w') = startLaunch w in (Done r, w'))))"

definition getBrowser_resume :: "bool \<Rightarrow> world \<Rightarrow> getBrowser_result \<times> world" where
  "getBrowser_resume healthy w =
     (if healthy then (Instance (browserInstance w), w)
      else startLaunch (w\<lparr>browserInstance := None\<rparr>))"

definition launch_failed_message :: "error \<Rightarrow> string" where
  "launch_failed_message e =
     ''Failed to launch browser: '' @ message_or_unknown e @ ''. '' @
     ''Ensure Playwright Chromium is installed: pnpm exec playwright install chromium''"

definition launch_settle ::
  "LaunchPromise \<Rightarrow> error + Browser \<Rightarrow> world \<Rightarrow> (error + Browser) \<times> world" where
  "launch_settle p outcome w =
     (case outcome of
        Inr browser \<Rightarrow>
          (Inr browser,
           w\<lparr>browserInstance := Some browser,
             browserLaunchPromise := None,
             launchesInFlight := removeAll p (launchesInFlight w)\<rparr>)
      | Inl e \<Rightarrow>
          (Inl (new_Error (launch_failed_message e)),
           w\<lparr>browserInstance := None,
             browserLaunchPromise := None,
             launchesInFlight := removeAll p (launchesInFlight w)\<rparr>))"

text \<open>
  On its first piece of work after a successful launch, the launch promise also registers
  a handler of \<open>SIGINT\<close> and \<open>SIGTERM\<close>; the handlers and the console output are
  not part of the model.
\<close>

text \<open>
  One caller's \<open>await getBrowser()\<close> with no other caller running in between: the
  pieces in order, the health check answered by \<open>probe\<close> and the launch by
  \<open>launched\<close>. A \<open>null\<close> browser makes the caller's \<open>browser.newPage()\<close> throw
  a \<open>TypeError\<close>.
\<close>

definition await_result ::
  "getBrowser_result \<Rightarrow> error + Browser \<Rightarrow> world \<Rightarrow> (error + Browser) \<times> world" where
  "await_result r launched w =
     (case r of
        Ticket p \<Rightarrow> launch_settle p launched w
      | Instance (Some b) \<Rightarrow> (Inr b, w)
      | Instance None \<Rightarrow>
          (Inl (new_Error ''Cannot read properties of null (reading 'newPage')''), w))"

definition getBrowser ::
  "BrowserProbe \<Rightarrow> error + Browser \<Rightarrow> world \<Rightarrow> (error + Browser) \<times> world" where
  "getBrowser probe launched w =
     (case getBrowser_enter w of
        (Done r, w1) \<Rightarrow> await_result r launched w1
      | (AwaitingHealth b, w1) \<Rightarrow>
          (let (r, w2) = getBrowser_resume (isBrowserHealthy probe) w1
           in await_result r launched w2))"

definition quota_message :: string where
  "quota_message =
     ''Maximum concurrent pages ('' @ String_of_int MAX_CONCURRENT_PAGES @ '') reached. '' @
     ''Too many PDF conversions in progress. Please try again later.''"

definition acquirePage ::
  "BrowserProbe \<Rightarrow> error + Browser \<Rightarrow> error + Page \<Rightarrow> world \<Rightarrow> (error + Page) \<times> world" where
  "acquirePage probe launched newPage w =
     (if activePages w \<ge> MAX_CONCURRENT_PAGES then (Inl (new_Error quota_message), w)
      else
        (case getBrowser probe launched w of
           (Inl e, w1) \<Rightarrow> (Inl e, w1)
         | (Inr browser, w1) \<Rightarrow>
             (let w2 = w1\<lparr>trace := trace w1 @ [NewPageCalled browser]\<rparr> in
              case newPage of
                Inl e \<Rightarrow> (Inl e, w2)
              | Inr page \<Rightarrow> (Inr page, w2\<lparr>activePages := activePages w2 + 1\<rparr>))))"

text \<open>
  \<open>releasePage\<close>: \<open>page.close()\<close> is called; if it throws, the \<open>catch\<close>
  block logs the error and drops it; the \<open>finally\<close> block lowers the counter on both
  paths. The first component of the result is what the function throws, if anything.
\<close>

definition releasePage :: "Page \<Rightarrow> error option \<Rightarrow> world \<Rightarrow> error option \<times> world" where
  "releasePage page closeOutcome w =
     (let w1 = w\<lparr>trace := trace w @ [PageCloseCalled page]\<rparr>;
          thrown = (case closeOutcome of None \<Rightarrow> None | Some e \<Rightarrow> None);
          w2 = w1\<lparr>activePages := max 0 (activePages w1 - 1)\<rparr>
      in (thrown, w2))"

definition closeBrowser :: "world \<Rightarrow> world" where
  "closeBrowser w =
     (let w1 = (case browserInstance w of
                  Some b \<Rightarrow> w\<lparr>browserInstance := None, trace := trace w @ [BrowserCloseCalled b]\<rparr>
                | None \<Rightarrow> w)
      in w1\<lparr>browserLaunchPromise := None, activePages := 0\<rparr>)"

section \<open>Formatting utilities\<close>

text \<open>
  \<open>formatFileSize\<close>. The quotient \<open>bytes / 1024\<close> is exact in floating point (a
  division by a power of two), and \<open>toFixed(1)\<close> rounds it to the nearest tenth, the
  larger one on a tie: the tenths are \<open>(10 * bytes + 512) div 1024\<close>.
\<close>

definition toFixed1 :: "nat \<Rightarrow> nat \<Rightarrow> string" where
  "toFixed1 bytes unit =
     (let tenths = (10 * bytes + unit div 2) div unit
      in digits (tenths div 10) @ ''.'' @ digits (tenths mod 10))"

definition formatFileSize :: "nat \<Rightarrow> string" where
  "formatFileSize bytes =
     (if bytes = 0 then ''0 B''
      else if bytes < 1024 then digits bytes @ '' B''
      else if bytes < 1024 * 1024 then toFixed1 bytes 1024 @ '' KB''
      else toFixed1 bytes (1024 * 1024) @ '' MB'')"

text \<open>
  \<open>String.prototype.replace\<close> with a global regular expression that is a literal
  text without capture groups, and a replacement string: every occurrence, from left to
  right and without overlap, is replaced by the expansion of the replacement, in which
  \<open>$$\<close> is a dollar sign, \<open>$&\<close> the matched text, a dollar sign and a backquote
  the text before the match, a dollar sign and a quote the text after it; any other
  dollar sign stands for itself.
\<close>

fun expand_replacement :: "string \<Rightarrow> string \<Rightarrow> string \<Rightarrow> string \<Rightarrow> string" where
  "expand_replacement matched preceding following [] = []"
| "expand_replacement matched preceding following [c] = [c]"
| "expand_replacement matched preceding following (c # x # rest) =
     (if c = CHR ''$'' then
        (if x = CHR ''$'' then CHR ''$'' # expand_replacement matched preceding following rest
         else if x = CHR ''&'' then matched @ expand_replacement matched preceding following rest
         else if x = CHR 0x60 then preceding @ expand_replacement matched preceding following rest
         else if x = CHR 0x27 then following @ expand_replacement matched preceding following rest
         else c # expand_replacement matched preceding following (x # rest))
      else c # expand_replacement matched preceding following (x # rest))"

function replace_from :: "string \<Rightarrow> string \<Rightarrow> string \<Rightarrow> string \<Rightarrow> string" where
  "replace_from pat repl preceding [] = []"
| "replace_from pat repl preceding (c # cs) =
     (if pat \<noteq> [] \<and> take (length pat) (c # cs) = pat then
        (let following = drop (length pat) (c # cs)
         in expand_replacement pat preceding following repl @ replace_from pat repl (preceding @ pat) following)
      else c # replace_from pat repl (preceding @ [c]) cs)"
  by pat_completeness auto
termination
  by (relation "measure (\<lambda>(pat, repl, preceding, s). length s)") (auto simp: Let_def)

definition replace_all :: "string \<Rightarrow> string \<Rightarrow> string \<Rightarrow> string" where
  "replace_all pat repl s = replace_from pat repl [] s"

datatype string_or_number = Str string | Num int

record TemplateVariables =
  var_page :: "string_or_number option"
  var_total :: "string_or_number option"
  var_date :: "string option"
  var_title :: "string option"

text \<open>\<open>String(v || '')\<close>: the empty string, zero and \<open>undefined\<close> are falsy.\<close>

definition String_or_empty :: "string_or_number option \<Rightarrow> string" where
  "String_or_empty v =
     (case v of
        None \<Rightarrow> []
      | Some (Str s) \<Rightarrow> (if s = [] then [] else s)
      | Some (Num n) \<Rightarrow> (if n = 0 then [] else String_of_int n))"

text \<open>\<open>v || d\<close> for an optional string \<open>v\<close>.\<close>

definition or_default :: "string option \<Rightarrow> string \<Rightarrow> string" where
  "or_default v d = (case v of None \<Rightarrow> d | Some s \<Rightarrow> (if s = [] then d else s))"

text \<open>
  \<open>replaceTemplateVariables\<close>; \<open>today\<close> is what
  \<open>new Date().toLocaleDateString()\<close> returns at the call.
\<close>

definition replaceTemplateVariables :: "string \<Rightarrow> string \<Rightarrow> TemplateVariables \<Rightarrow> string" where
  "replaceTemplateVariables today template variables =
     (let result = template;
          result = replace_all ''{page}'' (String_or_empty (var_page variables)) result;
          result = replace_all ''{total}'' (String_or_empty (var_total variables)) result;
          result = replace_all ''{date}'' (or_default (var_date variables) today) result;
          result = replace_all ''{title}'' (or_default (var_title variables) ''Document'') result
      in result)"

definition no_variables :: TemplateVariables where
  "no_variables = \<lparr>var_page = None, var_total = None, var_date = None, var_title = None\<rparr>"

section \<open>HTML template generation\<close>

text \<open>
  The regular expression \<open>/<h([1-6])[^>]*>(.*?)<\/h\1>/gi\<close>, piece by piece.
  \<open>open_tag\<close> is \<open><h([1-6])[^>]*>\<close> at the start of a string: \<open>[^>]*\<close>
  cannot run over a \<open>>\<close>, so the tag ends at the first one; it gives the digit and
  what follows the tag. \<open>close_tag\<close> is \<open><\/h\1>\<close> at the start of a string.
  \<open>lazy_inner\<close> is \<open>(.*?)<\/h\1>\<close>: the shortest run of characters that are not
  line terminators and that the closing tag follows.
\<close>

definition is_level_digit :: "char \<Rightarrow> bool" where
  "is_level_digit c = (c \<in> set ''123456'')"

fun open_tag :: "string \<Rightarrow> (char \<times> string) option" where
  "open_tag (a # b # d # rest) =
     (if a = CHR ''<'' \<and> (b = CHR ''h'' \<or> b = CHR ''H'') \<and> is_level_digit d then
        (case dropWhile (\<lambda>c. c \<noteq> CHR ''>'') rest of
           [] \<Rightarrow> None
         | g # rest' \<Rightarrow> Some (d, rest'))
      else None)"
| "open_tag s = None"

fun close_tag :: "char \<Rightarrow> string \<Rightarrow> string option" where
  "close_tag d (a # b # c # e # f # rest) =
     (if a = CHR ''<'' \<and> b = CHR ''/'' \<and> (c = CHR ''h'' \<or> c = CHR ''H'') \<and> e = d \<and> f = CHR ''>''
      then Some rest else None)"
| "close_tag d s = None"

fun lazy_inner :: "char \<Rightarrow> string \<Rightarrow> (string \<times> string) option" where
  "lazy_inner d [] = None"
| "lazy_inner d (c # cs) =
     (case close_tag d (c # cs) of
        Some rest \<Rightarrow> Some ([], rest)
      | None \<Rightarrow>
          (if is_line_terminator c then None
           else (case lazy_inner d cs of
                   None \<Rightarrow> None
                 | Some (inner, rest) \<Rightarrow> Some (c # inner, rest))))"

definition heading_at :: "string \<Rightarrow> (char \<times> string \<times> string) option" where
  "heading_at s =
     (case open_tag s of
        None \<Rightarrow> None
      | Some (d, r) \<Rightarrow>
          (case lazy_inner d r of
             None \<Rightarrow> None
           | Some (inner, rest) \<Rightarrow> Some (d, inner, rest)))"

text \<open>
  The global scan of a string with this expression, as both \<open>exec\<close> in a loop and
  \<open>replace\<close> do it: where the expression matches, the match (its two groups) is
  taken and the scan goes on behind it; where it does not, the scan moves one character
  on.
\<close>

datatype segment = Other char | HeadingMatch char string

lemma open_tag_shorter: "open_tag s = Some (d, r) \<Longrightarrow> length r < length s"
proof (induction s rule: open_tag.induct)
  case (1 a b d' rest)
  have "length (dropWhile (\<lambda>c. c \<noteq> CHR ''>'') rest) \<le> length rest"
    by (rule length_dropWhile_le)
  with 1 show ?case
    by (auto split: if_splits list.splits)
qed simp_all

lemma close_tag_shorter: "close_tag d s = Some r \<Longrightarrow> length r < length s"
  by (induction d s rule: close_tag.induct) (auto split: if_splits)

lemma lazy_inner_shorter: "lazy_inner d s = Some (inner, r) \<Longrightarrow> length r < length s"
proof (induction s arbitrary: inner r)
  case Nil
  then show ?case by simp
next
  case (Cons c cs)
  show ?case
  proof (cases "close_tag d (c # cs)")
    case (Some rest)
    with Cons.prems show ?thesis
      using close_tag_shorter [of d "c # cs" rest] by simp
  next
    case None
    with Cons.prems obtain inner' where "lazy_inner d cs = Some (inner', r)"
      by (auto split: if_splits option.splits)
    from Cons.IH [OF this] show ?thesis by simp
  qed
qed

lemma heading_at_shorter: "heading_at s = Some (d, inner, rest) \<Longrightarrow> length rest < length s"
  unfolding heading_at_def
  by (auto split: option.splits dest!: open_tag_shorter lazy_inner_shorter)

function heading_scan :: "string \<Rightarrow> segment list" where
  "heading_scan [] = []"
| "heading_scan (c # cs) =
     (case heading_at (c # cs) of
        Some (d, inner, rest) \<Rightarrow> HeadingMatch d inner # heading_scan rest
      | None \<Rightarrow> Other c # heading_scan cs)"
  by pat_completeness auto
termination
  by (relation "measure length") (auto dest: heading_at_shorter)

text \<open>\<open>replace(/<[^>]*>/g, '')\<close>\<close>

function strip_tags :: "string \<Rightarrow> string" where
  "strip_tags [] = []"
| "strip_tags (c # cs) =
     (if c = CHR ''<'' then
        (case dropWhile (\<lambda>x. x \<noteq> CHR ''>'') cs of
           [] \<Rightarrow> c # strip_tags cs
         | g # rest \<Rightarrow> strip_tags rest)
      else c # strip_tags cs)"
  by pat_completeness auto
termination
proof (relation "measure length", goal_cases)
  case (3 c cs g rest)
  have "length (dropWhile (\<lambda>x. x \<noteq> CHR ''>'') cs) \<le> length cs"
    by (rule length_dropWhile_le)
  with 3 show ?case by simp
qed simp_all

text \<open>\<open>replace(/\s+/g, '-')\<close>\<close>

function replace_spaces :: "string \<Rightarrow> string" where
  "replace_spaces [] = []"
| "replace_spaces (c # cs) =
     (if is_space c then CHR ''-'' # replace_spaces (dropWhile is_space cs)
      else c # replace_spaces cs)"
  by pat_completeness auto
termination
proof (relation "measure length", goal_cases)
  case (2 c cs)
  have "length (dropWhile is_space cs) \<le> length cs"
    by (rule length_dropWhile_le)
  then show ?case by simp
qed simp_all

text \<open>\<open>replace(/[^\w-]/g, '')\<close>\<close>

definition strip_non_word :: "string \<Rightarrow> string" where
  "strip_non_word s = filter (\<lambda>c. is_word c \<or> c = CHR ''-'') s"

text \<open>
  The identifier both \<open>generateToc\<close> and \<open>addHeadingIds\<close> compute from the plain
  text of a heading.
\<close>

definition heading_id :: "string \<Rightarrow> string" where
  "heading_id text = strip_non_word (replace_spaces (toLowerCase text))"

record Heading =
  h_level :: nat
  h_text :: string
  h_id :: string

text \<open>\<open>parseInt\<close> of the digit the first group holds.\<close>

definition parseInt_digit :: "char \<Rightarrow> nat" where
  "parseInt_digit d = of_char d - 48"

text \<open>The first loop of \<open>generateToc\<close>, over the matches of the scan.\<close>

fun collect_headings :: "real \<Rightarrow> segment list \<Rightarrow> Heading list" where
  "collect_headings maxDepth [] = []"
| "collect_headings maxDepth (Other c # segs) = collect_headings maxDepth segs"
| "collect_headings maxDepth (HeadingMatch d inner # segs) =
     (let level = parseInt_digit d in
      if real level \<le> maxDepth then
        (let text = trim (strip_tags inner);
             id = heading_id text
         in \<lparr>h_level = level, h_text = text, h_id = id\<rparr> # collect_headings maxDepth segs)
      else collect_headings maxDepth segs)"

function open_lists :: "string \<Rightarrow> nat \<Rightarrow> nat \<Rightarrow> string \<times> nat" where
  "open_lists tocHtml currentLevel lvl =
     (if currentLevel < lvl then open_lists (tocHtml @ ''<ul>'') (currentLevel + 1) lvl
      else (tocHtml, currentLevel))"
  by pat_completeness auto
termination
  by (relation "measure (\<lambda>(tocHtml, currentLevel, lvl). lvl - currentLevel)") auto

function close_lists :: "string \<Rightarrow> nat \<Rightarrow> nat \<Rightarrow> string \<times> nat" where
  "close_lists tocHtml currentLevel lvl =
     (if currentLevel > lvl then close_lists (tocHtml @ ''</ul>'') (currentLevel - 1) lvl
      else (tocHtml, currentLevel))"
  by pat_completeness auto
termination
  by (relation "measure (\<lambda>(tocHtml, currentLevel, lvl). currentLevel - lvl)") auto

declare open_lists.simps [simp del] close_lists.simps [simp del]

definition toc_item :: "Heading \<Rightarrow> string" where
  "toc_item heading =
     ''<li><a href=\"#'' @ h_id heading @ ''\">'' @ h_text heading @ ''</a></li>''"

fun toc_items :: "string \<Rightarrow> nat \<Rightarrow> Heading list \<Rightarrow> string \<times> nat" where
  "toc_items tocHtml currentLevel [] = (tocHtml, currentLevel)"
| "toc_items tocHtml currentLevel (heading # headings) =
     (let (t1, c1) = open_lists tocHtml currentLevel (h_level heading);
          (t2, c2) = close_lists t1 c1 (h_level heading)
      in toc_items (t2 @ toc_item heading) c2 headings)"

definition generateToc :: "string \<Rightarrow> real \<Rightarrow> string" where
  "generateToc htmlContent maxDepth =
     (let headings = collect_headings maxDepth (heading_scan htmlContent) in
      if length headings = 0 then []
      else
        (let tocHtml = ''<nav class=\"toc\"><div class=\"toc-title\">Table of Contents</div><ul>'';
             (t1, c1) = toc_items tocHtml 1 headings;
             (t2, c2) = close_lists t1 c1 1
         in t2 @ ''</ul></nav>''))"

definition heading_with_id :: "char \<Rightarrow> string \<Rightarrow> string" where
  "heading_with_id level text =
     (let plainText = trim (strip_tags text);
          id = heading_id plainText
      in ''<h'' @ [level] @ '' id=\"'' @ id @ ''\">'' @ text @ ''</h'' @ [level] @ ''>'')"

definition addHeadingIds :: "string \<Rightarrow> string" where
  "addHeadingIds htmlContent =
     concat (map (\<lambda>seg. case seg of Other c \<Rightarrow> [c] | HeadingMatch level text \<Rightarrow> heading_with_id level text)
               (heading_scan htmlContent))"

record HeaderFooter =
  hf_left :: "string option"
  hf_center :: "string option"
  hf_right :: "string option"

definition default_style :: string where
  "default_style = ''font-size: 10px; padding: 5px 20px; width: 100%;''"

definition formatHeaderFooter :: "string \<Rightarrow> HeaderFooter \<Rightarrow> string \<Rightarrow> string" where
  "formatHeaderFooter today config style =
     (let left = replaceTemplateVariables today (or_default (hf_left config) []) no_variables;
          center = replaceTemplateVariables today (or_default (hf_center config) []) no_variables;
          right = replaceTemplateVariables today (or_default (hf_right config) []) no_variables
      in [CHR 0x0A] @ ''    <div style=\"'' @ style @ ''\">'' @ [CHR 0x0A] @
         ''      <table style=\"width: 100%; border: none;\">'' @ [CHR 0x0A] @
         ''        <tr>'' @ [CHR 0x0A] @
         ''          <td style=\"text-align: left; width: 33%;\">'' @ left @ ''</td>'' @ [CHR 0x0A] @
         ''          <td style=\"text-align: center; width: 34%;\">'' @ center @ ''</td>'' @ [CHR 0x0A] @
         ''          <td style=\"text-align: right; width: 33%;\">'' @ right @ ''</td>'' @ [CHR 0x0A] @
         ''        </tr>'' @ [CHR 0x0A] @
         ''      </table>'' @ [CHR 0x0A] @
         ''    </div>'' @ [CHR 0x0A] @
         ''  '')"

text \<open>
  \<open>generateHtmlTemplate\<close>: the document is a fixed text with five holes; the
  record holds what fills them.
\<close>

record HtmlTemplateOptions =
  opt_content :: string
  opt_themeCss :: string
  opt_codeHighlightCss :: string
  opt_customCss :: string
  opt_includeToc :: bool
  opt_tocDepth :: real

definition generateHtmlTemplate :: "HtmlTemplateOptions \<Rightarrow> HtmlDocument" where
  "generateHtmlTemplate options =
     (let contentWithIds = addHeadingIds (opt_content options);
          toc = (if opt_includeToc options then generateToc contentWithIds (opt_tocDepth options)
                 else [])
      in \<lparr>doc_themeCss = opt_themeCss options,
          doc_codeHighlightCss = opt_codeHighlightCss options,
          doc_customCss = opt_customCss options,
          doc_toc = toc,
          doc_contentWithIds = contentWithIds\<rparr>)"

section \<open>Error handling utilities\<close>

definition getErrorSuggestion :: "string \<Rightarrow> string" where
  "getErrorSuggestion error_message =
     (let message = toLowerCase error_message in
      if includes_str message ''enoent'' \<or> includes_str message ''no such file'' then
        ''File not found. Check if the path is correct and the file exists. Use an absolute path for reliability.''
      else if includes_str message ''eacces'' \<or> includes_str message ''permission denied'' then
        ''Permission denied. Ensure you have write access to the output directory. Try a different output path.''
      else if includes_str message ''timeout'' \<or> includes_str message ''timed out'' then
        ''Request timed out. Try setting wait_for_network_idle: false or check your network connection.''
      else if includes_str message ''fetch'' \<or> includes_str message ''network'' then
        ''Network error while fetching remote content. Check the URL and your internet connection.''
      else if includes_str message ''markdown'' \<or> includes_str message ''parse'' then
        ''Invalid markdown syntax. Review the markdown content for formatting errors.''
      else if includes_str message ''browser'' \<or> includes_str message ''chromium'' then
        ''Browser error. Ensure Playwright Chromium is installed: pnpm exec playwright install chromium''
      else if includes_str message ''enospc'' \<or> includes_str message ''no space'' then
        ''Not enough disk space. Free up some space and try again.''
      else if includes_str message ''invalid'' \<or> includes_str message ''validation'' then
        ''Invalid input parameters. Check the parameter values and try again.''
      else
        ''An unexpected error occurred. Check the error message for details and try again.'')"

datatype ErrorResponse =
  ErrorResponse (r_error: string) (r_suggestion: string) (r_details: "error option")

text \<open>
  \<open>createErrorResponse\<close>. Its argument is typed \<open>Error\<close>, but a caller passes what
  it caught: on a value that is not an \<open>Error\<close> the read of \<open>error.message\<close>
  gives \<open>undefined\<close> and \<open>toLowerCase\<close> throws a \<open>TypeError\<close>. The model
  has one value for everything that is not an \<open>Error\<close> and one text for this
  \<open>TypeError\<close>; for a thrown \<open>undefined\<close> or \<open>null\<close> the code throws it
  earlier, at the read of \<open>error.message\<close>, with another text.
\<close>

definition createErrorResponse :: "error \<Rightarrow> bool \<Rightarrow> error + ErrorResponse" where
  "createErrorResponse e includeDetails =
     (case e of
        NonError \<Rightarrow> Inl (new_Error ''Cannot read properties of undefined (reading 'toLowerCase')'')
      | Error m c \<Rightarrow>
          Inr (ErrorResponse m (getErrorSuggestion m) (if includeDetails then Some e else None)))"

text \<open>\<open>Boolean(v)\<close> for an optional string: \<open>undefined\<close> and the empty string are falsy.\<close>

definition truthy :: "string option \<Rightarrow> bool" where
  "truthy v = (case v of None \<Rightarrow> False | Some s \<Rightarrow> s \<noteq> [])"

record Validation =
  valid :: bool
  v_error :: "string option"
  v_suggestion :: "string option"

definition validateInputSource ::
  "string option \<Rightarrow> string option \<Rightarrow> string option \<Rightarrow> Validation" where
  "validateInputSource markdownContent markdownFilePath markdownUrl =
     (let sources = filter truthy [markdownContent, markdownFilePath, markdownUrl] in
      if length sources = 0 then
        \<lparr>valid = False,
         v_error = Some ''No input source provided'',
         v_suggestion = Some ''Provide one of: markdown_content, markdown_file_path, or markdown_url''\<rparr>
      else if length sources > 1 then
        \<lparr>valid = False,
         v_error = Some ''Multiple input sources provided'',
         v_suggestion = Some ''Provide only ONE of: markdown_content, markdown_file_path, or markdown_url''\<rparr>
      else \<lparr>valid = True, v_error = None, v_suggestion = None\<rparr>)"

section \<open>File operation utilities\<close>

definition readMarkdownFile :: "string \<Rightarrow> error + string \<Rightarrow> error + string" where
  "readMarkdownFile filePath readFile_outcome =
     (case readFile_outcome of
        Inr content \<Rightarrow> Inr content
      | Inl e \<Rightarrow>
          (case e of
             Error m (Some c) \<Rightarrow>
               (if c = ''ENOENT'' then Inl (new_Error (''Markdown file not found: '' @ filePath))
                else Inl e)
           | Error m None \<Rightarrow> Inl e
           | NonError \<Rightarrow> Inl e))"

record FetchResponse =
  resp_ok :: bool
  resp_status :: nat
  resp_statusText :: string
  resp_text :: "error + string"

definition fetchMarkdownUrl :: "string \<Rightarrow> error + FetchResponse \<Rightarrow> error + string" where
  "fetchMarkdownUrl url fetch_outcome =
     (let attempt =
        (case fetch_outcome of
           Inl e \<Rightarrow> Inl e
         | Inr response \<Rightarrow>
             (if \<not> resp_ok response then
                Inl (new_Error (''HTTP '' @ digits (resp_status response) @ '': '' @ resp_statusText response))
              else resp_text response))
      in case attempt of
           Inr content \<Rightarrow> Inr content
         | Inl (Error m c) \<Rightarrow> Inl (new_Error (''Failed to fetch markdown from URL: '' @ m))
         | Inl NonError \<Rightarrow> Inl NonError)"

definition ensureOutputDirectory :: "error option \<Rightarrow> error option" where
  "ensureOutputDirectory mkdir_outcome =
     (case mkdir_outcome of
        None \<Rightarrow> None
      | Some (Error m (Some c)) \<Rightarrow>
          (if c \<noteq> ''EEXIST'' then Some (new_Error (''Failed to create output directory: '' @ m))
           else None)
      | Some (Error m None) \<Rightarrow> None
      | Some NonError \<Rightarrow> None)"

definition getFileSize :: "error + nat \<Rightarrow> nat" where
  "getFileSize stat_outcome = (case stat_outcome of Inr bytes \<Rightarrow> bytes | Inl e \<Rightarrow> 0)"

definition loadTheme :: "string \<Rightarrow> error + string \<Rightarrow> error + string" where
  "loadTheme themeName readFile_outcome =
     (case readFile_outcome of
        Inr css \<Rightarrow> Inr css
      | Inl e \<Rightarrow>
          Inl (new_Error (''Failed to load theme \"'' @ themeName @ ''\": '' @ message_or_unknown e)))"

section \<open>PDF generation\<close>

record Margin =
  m_top :: "string option"
  m_bottom :: "string option"
  m_left :: "string option"
  m_right :: "string option"

record PdfGenerationConfig =
  markdownContent :: string
  outputPath :: string
  cfg_theme :: string
  customCss :: "string option"
  pageFormat :: string
  pageOrientation :: string
  cfg_margin :: "Margin option"
  includeToc :: bool
  tocDepth :: real
  codeTheme :: string
  cfg_header :: "HeaderFooter option"
  cfg_footer :: "HeaderFooter option"
  cfg_scale :: real
  waitForNetworkIdle :: bool
  baseUrl :: "string option"
  responseFormat :: string

record PdfStats =
  s_pages :: int
  s_codeBlocks :: nat
  s_images :: nat
  s_headings :: nat
  s_missingImages :: "string list"
  s_warnings :: "string list"

datatype Metadata =
  Metadata (meta_theme: string) (meta_page_format: string) (meta_includes_toc: bool)
    (meta_code_blocks: nat) (meta_images: nat) (meta_headings: nat) (meta_warnings: "string list")

datatype SuccessResponse =
  SuccessResponse (r_output_path: string) (r_file_size: string) (r_pages: int)
    (r_duration_ms: int) (r_metadata: "Metadata option")

text \<open>What \<open>page.evaluate\<close> returns in \<open>gatherStats\<close>.\<close>

record RawStats =
  raw_codeBlocks :: nat
  raw_images :: nat
  raw_headings :: nat
  raw_missingImages :: "string list"

text \<open>
  What the outside world answers to one request, one field per call that is awaited:
  \<open>None\<close> or \<open>Inr\<close> when the call returns, \<open>Some\<close> or \<open>Inl\<close> when it throws.
  \<open>loadCodeTheme_r\<close> is a style sheet: \<open>loadCodeTheme\<close> catches every failure and
  returns its fallback then. \<open>close_r n\<close> answers the call number \<open>n\<close> of
  \<open>page.close()\<close> in the request.
\<close>

record env =
  readFile_r :: "error + string"
  fetch_r :: "error + FetchResponse"
  debug :: bool
  now_start :: int
  now_end :: int
  today :: string
  mkdir_r :: "error option"
  marked_r :: "error + string"
  themeFile_r :: "error + string"
  loadCodeTheme_r :: string
  probe :: BrowserProbe
  launch_r :: "error + Browser"
  newPage_r :: "error + Page"
  setViewportSize_r :: "error option"
  setContent_r :: "error option"
  waitForFunction_r :: "error option"
  pdf_r :: "error + nat"
  evaluate_r :: "error + RawStats"
  close_r :: "nat \<Rightarrow> error option"

fun join :: "string \<Rightarrow> string list \<Rightarrow> string" where
  "join sep [] = []"
| "join sep [x] = x"
| "join sep (x # y # ys) = x @ sep @ join sep (y # ys)"

definition gatherStats :: "Page \<Rightarrow> bool \<Rightarrow> error + RawStats \<Rightarrow> error + PdfStats" where
  "gatherStats page detailed evaluate_outcome =
     (case evaluate_outcome of
        Inl e \<Rightarrow> Inl e
      | Inr stats \<Rightarrow>
          (let warnings =
             (if length (raw_missingImages stats) > 0 then
                [digits (length (raw_missingImages stats)) @ '' image(s) failed to load: '' @
                 join '', '' (raw_missingImages stats)]
              else [])
           in Inr \<lparr>s_pages = 0,
                   s_codeBlocks = raw_codeBlocks stats,
                   s_images = raw_images stats,
                   s_headings = raw_headings stats,
                   s_missingImages = raw_missingImages stats,
                   s_warnings = warnings\<rparr>))"

definition estimatePageCount :: "error + nat \<Rightarrow> int" where
  "estimatePageCount stat_outcome =
     (let fileSize = getFileSize stat_outcome
      in max 1 \<lceil>real fileSize / (75 * 1024)\<rceil>)"

definition defaultMargin :: Margin where
  "defaultMargin =
     \<lparr>m_top = Some ''2cm'', m_bottom = Some ''2cm'', m_left = Some ''2cm'', m_right = Some ''2cm''\<rparr>"

text \<open>The argument of \<open>page.pdf\<close> (step 8 and step 9).\<close>

definition pdfOptions :: "string \<Rightarrow> PdfGenerationConfig \<Rightarrow> PdfOptions" where
  "pdfOptions today_string config =
     (let margin = (case cfg_margin config of None \<Rightarrow> defaultMargin | Some m \<Rightarrow> m) in
      \<lparr>pdf_path = outputPath config,
       pdf_format = pageFormat config,
       pdf_landscape = (pageOrientation config = ''landscape''),
       pdf_margin_top = or_default (m_top margin) ''2cm'',
       pdf_margin_bottom = or_default (m_bottom margin) ''2cm'',
       pdf_margin_left = or_default (m_left margin) ''2cm'',
       pdf_margin_right = or_default (m_right margin) ''2cm'',
       pdf_scale = cfg_scale config,
       pdf_printBackground = True,
       pdf_displayHeaderFooter = (cfg_header config \<noteq> None \<or> cfg_footer config \<noteq> None),
       pdf_headerTemplate =
         (case cfg_header config of
            Some h \<Rightarrow> Some (formatHeaderFooter today_string h default_style) | None \<Rightarrow> None),
       pdf_footerTemplate =
         (case cfg_footer config of
            Some f \<Rightarrow> Some (formatHeaderFooter today_string f default_style) | None \<Rightarrow> None)\<rparr>)"

text \<open>Steps 1 to 4 of \<open>generatePdf\<close>: no page is held yet.\<close>

definition prepare :: "PdfGenerationConfig \<Rightarrow> env \<Rightarrow> world \<Rightarrow> (error + HtmlDocument) \<times> world" where
  "prepare config e w =
     (let w1 = w\<lparr>trace := trace w @ [MkdirCalled (outputPath config)]\<rparr> in
      case ensureOutputDirectory (mkdir_r e) of
        Some err \<Rightarrow> (Inl err, w1)
      | None \<Rightarrow>
          (case marked_r e of
             Inl err \<Rightarrow> (Inl err, w1)
           | Inr htmlContent \<Rightarrow>
               (case loadTheme (cfg_theme config) (themeFile_r e) of
                  Inl err \<Rightarrow> (Inl err, w1)
                | Inr themeCss \<Rightarrow>
                    (let codeHighlightCss = loadCodeTheme_r e;
                         fullHtml = generateHtmlTemplate
                           \<lparr>opt_content = htmlContent,
                            opt_themeCss = themeCss,
                            opt_codeHighlightCss = codeHighlightCss,
                            opt_customCss = or_default (customCss config) [],
                            opt_includeToc = includeToc config,
                            opt_tocDepth = tocDepth config\<rparr>
                     in (Inr fullHtml, w1)))))"

text \<open>
  From the viewport to step 10, with the page held: the length of the PDF buffer and
  the statistics, or the first error thrown. A timeout of \<open>waitForFunction\<close> is caught
  in place and changes nothing.
\<close>

definition render ::
  "Page \<Rightarrow> PdfGenerationConfig \<Rightarrow> HtmlDocument \<Rightarrow> env \<Rightarrow> world \<Rightarrow> (error + nat \<times> PdfStats) \<times> world" where
  "render page config fullHtml e w =
     (let w1 = w\<lparr>trace := trace w @ [SetViewportSizeCalled page]\<rparr> in
      case setViewportSize_r e of
        Some err \<Rightarrow> (Inl err, w1)
      | None \<Rightarrow>
          (let waitUntil = (if waitForNetworkIdle config then ''networkidle'' else ''domcontentloaded'');
               w2 = w1\<lparr>trace := trace w1 @ [SetContentCalled page fullHtml waitUntil]\<rparr>
           in case setContent_r e of
                Some err \<Rightarrow> (Inl err, w2)
              | None \<Rightarrow>
                  (let w3 = (case waitForFunction_r e of None \<Rightarrow> w2 | Some err \<Rightarrow> w2);
                       w4 = w3\<lparr>trace := trace w3 @ [PdfCalled page (pdfOptions (today e) config)]\<rparr>
                   in case pdf_r e of
                        Inl err \<Rightarrow> (Inl err, w4)
                      | Inr pdfBuffer_length \<Rightarrow>
                          (case gatherStats page (responseFormat config = ''detailed'') (evaluate_r e) of
                             Inl err \<Rightarrow> (Inl err, w4)
                           | Inr stats \<Rightarrow> (Inr (pdfBuffer_length, stats), w4)))))"

text \<open>Steps 12 and 13.\<close>

definition buildResponse :: "PdfGenerationConfig \<Rightarrow> env \<Rightarrow> nat \<Rightarrow> PdfStats \<Rightarrow> SuccessResponse" where
  "buildResponse config e pdfBuffer_length stats =
     (let duration = now_end e - now_start e;
          fileSize = formatFileSize pdfBuffer_length
      in SuccessResponse (outputPath config) fileSize (s_pages stats) duration
           (if responseFormat config = ''detailed'' then
              Some (Metadata (cfg_theme config) (pageFormat config) (includeToc config)
                      (s_codeBlocks stats) (s_images stats) (s_headings stats) (s_warnings stats))
            else None))"

text \<open>
  The \<open>catch\<close> block and the \<open>finally\<close> block of \<open>generatePdf\<close> for an
  error thrown while \<open>page\<close> is set. The \<open>catch\<close> block releases the page and
  throws the error again (or what \<open>releasePage\<close> throws); it leaves \<open>page\<close> as
  it is, so the \<open>finally\<close> block finds \<open>page\<close> set and releases the page
  again, dropping what that release may throw. \<open>k\<close> counts the calls of
  \<open>page.close()\<close> made before.
\<close>

definition catch_and_finally ::
  "Page \<Rightarrow> error \<Rightarrow> env \<Rightarrow> nat \<Rightarrow> world \<Rightarrow> error \<times> world" where
  "catch_and_finally page err e k w =
     (case releasePage page (close_r e k) w of
        (Some err', w1) \<Rightarrow>
          (case releasePage page (close_r e (k + 1)) w1 of (dropped, w2) \<Rightarrow> (err', w2))
      | (None, w1) \<Rightarrow>
          (case releasePage page (close_r e (k + 1)) w1 of (dropped, w2) \<Rightarrow> (err, w2)))"

text \<open>
  \<open>generatePdf\<close>. The variable \<open>page\<close> is \<open>null\<close> until step 5 succeeds, so an
  error before that passes the \<open>catch\<close> and the \<open>finally\<close> block without a
  release. In step 11 the page is released and \<open>page\<close> is set to \<open>null\<close>, so
  the \<open>finally\<close> block does nothing after a success. An error thrown while the page
  is held runs \<open>catch_and_finally\<close>.
\<close>

definition generatePdf :: "PdfGenerationConfig \<Rightarrow> env \<Rightarrow> world \<Rightarrow> (error + SuccessResponse) \<times> world" where
  "generatePdf config e w =
     (case prepare config e w of
        (Inl err, w1) \<Rightarrow> (Inl err, w1)
      | (Inr fullHtml, w1) \<Rightarrow>
          (case acquirePage (probe e) (launch_r e) (newPage_r e) w1 of
             (Inl err, w2) \<Rightarrow> (Inl err, w2)
           | (Inr page, w2) \<Rightarrow>
               (case render page config fullHtml e w2 of
                  (Inr (pdfBuffer_length, stats), w3) \<Rightarrow>
                    (case releasePage page (close_r e 0) w3 of
                       (None, w4) \<Rightarrow> (Inr (buildResponse config e pdfBuffer_length stats), w4)
                     | (Some err, w4) \<Rightarrow>
                         (case catch_and_finally page err e 1 w4 of (thrown, w5) \<Rightarrow> (Inl thrown, w5)))
                | (Inl err, w3) \<Rightarrow>
                    (case catch_and_finally page err e 0 w3 of (thrown, w5) \<Rightarrow> (Inl thrown, w5)))))"

section \<open>Main conversion tool\<close>

record MarkdownToPdfInput =
  markdown_content :: "string option"
  markdown_file_path :: "string option"
  markdown_url :: "string option"
  output_path :: string
  theme :: string
  custom_css :: "string option"
  page_format :: string
  page_orientation :: string
  margin :: "Margin option"
  include_toc :: bool
  toc_depth :: real
  code_theme :: string
  header :: "HeaderFooter option"
  footer :: "HeaderFooter option"
  scale :: real
  wait_for_network_idle :: bool
  base_url :: "string option"
  response_format :: string

datatype MarkdownToPdfResponse = Success SuccessResponse | Failure ErrorResponse

text \<open>The string of an optional string that is truthy.\<close>

definition truthy_string :: "string option \<Rightarrow> string option" where
  "truthy_string v = (case v of None \<Rightarrow> None | Some s \<Rightarrow> (if s = [] then None else Some s))"

text \<open>
  The two \<open>catch\<close> blocks of step 2 are the same: \<open>createErrorResponse\<close> of
  what was caught is returned.
\<close>

definition content_or_response ::
  "error + string \<Rightarrow> error + (MarkdownToPdfResponse + string)" where
  "content_or_response outcome =
     (case outcome of
        Inr content \<Rightarrow> Inr (Inr content)
      | Inl err \<Rightarrow>
          (case createErrorResponse err False of
             Inl thrown \<Rightarrow> Inl thrown
           | Inr response \<Rightarrow> Inr (Inl (Failure response))))"

text \<open>Step 2 of \<open>convertMarkdownToPdf\<close>: a response returned early, or the content.\<close>

definition getContent :: "MarkdownToPdfInput \<Rightarrow> env \<Rightarrow> error + (MarkdownToPdfResponse + string)" where
  "getContent input e =
     (case truthy_string (markdown_content input) of
        Some content \<Rightarrow> Inr (Inr content)
      | None \<Rightarrow>
          (case truthy_string (markdown_file_path input) of
             Some filePath \<Rightarrow> content_or_response (readMarkdownFile filePath (readFile_r e))
           | None \<Rightarrow>
               (case truthy_string (markdown_url input) of
                  Some url \<Rightarrow> content_or_response (fetchMarkdownUrl url (fetch_r e))
                | None \<Rightarrow>
                    Inr (Inl (Failure (ErrorResponse ''No input source provided''
                      ''Provide one of: markdown_content, markdown_file_path, or markdown_url''
                      None))))))"

definition buildConfig :: "MarkdownToPdfInput \<Rightarrow> string \<Rightarrow> PdfGenerationConfig" where
  "buildConfig input content =
     \<lparr>markdownContent = content,
      outputPath = output_path input,
      cfg_theme = theme input,
      customCss = custom_css input,
      pageFormat = page_format input,
      pageOrientation = page_orientation input,
      cfg_margin = margin input,
      includeToc = include_toc input,
      tocDepth = toc_depth input,
      codeTheme = code_theme input,
      cfg_header = header input,
      cfg_footer = footer input,
      cfg_scale = scale input,
      waitForNetworkIdle = wait_for_network_idle input,
      baseUrl = base_url input,
      responseFormat = response_format input\<rparr>"

text \<open>The body of the \<open>try\<close> block of \<open>convertMarkdownToPdf\<close>.\<close>

definition convert_body ::
  "MarkdownToPdfInput \<Rightarrow> env \<Rightarrow> world \<Rightarrow> (error + MarkdownToPdfResponse) \<times> world" where
  "convert_body input e w =
     (let validation = validateInputSource (markdown_content input) (markdown_file_path input)
                         (markdown_url input) in
      if \<not> valid validation then
        (Inr (Failure (ErrorResponse (the (v_error validation)) (the (v_suggestion validation)) None)), w)
      else
        (case getContent input e of
           Inl thrown \<Rightarrow> (Inl thrown, w)
         | Inr (Inl response) \<Rightarrow> (Inr response, w)
         | Inr (Inr content) \<Rightarrow>
             (if trim content = [] then
                (Inr (Failure (ErrorResponse ''Markdown content is empty''
                   ''Provide non-empty markdown content to convert'' None)), w)
              else
                (case generatePdf (buildConfig input content) e w of
                   (Inl thrown, w') \<Rightarrow> (Inl thrown, w')
                 | (Inr result, w') \<Rightarrow> (Inr (Success result), w')))))"

text \<open>
  \<open>convertMarkdownToPdf\<close>: the \<open>try\<close> block and its \<open>catch\<close>. For an
  \<open>Error\<close> the \<open>catch\<close> block returns \<open>createErrorResponse\<close> of it, with the
  details when \<open>process.env.DEBUG\<close> is \<open>'true'\<close>, which is the response written
  out here; for any other value it returns the fixed response.
\<close>

definition convertMarkdownToPdf ::
  "MarkdownToPdfInput \<Rightarrow> env \<Rightarrow> world \<Rightarrow> MarkdownToPdfResponse \<times> world" where
  "convertMarkdownToPdf input e w =
     (case convert_body input e w of
        (Inr response, w') \<Rightarrow> (response, w')
      | (Inl (Error m c), w') \<Rightarrow>
          (Failure (ErrorResponse m (getErrorSuggestion m)
                      (if debug e then Some (Error m c) else None)), w')
      | (Inl NonError, w') \<Rightarrow>
          (Failure (ErrorResponse ''An unexpected error occurred''
                      ''Check the input parameters and try again'' None), w'))"

section \<open>Concrete requests\<close>

text \<open>
  The inputs of the examples below: the module as it is loaded, the module while another
  request holds a page of a running browser, a request with the defaults of the input
  schema, and an outside world in which every call succeeds.
\<close>

definition world_initial :: world where
  "world_initial =
     \<lparr>browserInstance = None, browserLaunchPromise = None, activePages = 0,
      launchesStarted = 0, launchesInFlight = [], trace = []\<rparr>"

definition world_busy :: world where
  "world_busy =
     \<lparr>browserInstance = Some 0, browserLaunchPromise = None, activePages = 1,
      launchesStarted = 1, launchesInFlight = [], trace = []\<rparr>"

definition input_default :: MarkdownToPdfInput where
  "input_default =
     \<lparr>markdown_content = Some ''# Title'', markdown_file_path = None, markdown_url = None,
      output_path = ''out.pdf'', theme = ''github'', custom_css = None, page_format = ''A4'',
      page_orientation = ''portrait'', margin = None, include_toc = False, toc_depth = 3,
      code_theme = ''github'', header = None, footer = None, scale = 1,
      wait_for_network_idle = True, base_url = None, response_format = ''concise''\<rparr>"

definition env_ok :: env where
  "env_ok =
     \<lparr>readFile_r = Inr ''# Title'',
      fetch_r = Inr \<lparr>resp_ok = True, resp_status = 200, resp_statusText = ''OK'',
                     resp_text = Inr ''# Title''\<rparr>,
      debug = False, now_start = 1000, now_end = 2200, today = ''11/2/2026'',
      mkdir_r = None, marked_r = Inr ''<h1>Title</h1>'', themeFile_r = Inr ''body {}'',
      loadCodeTheme_r = ''pre {}'',
      probe = \<lparr>contextsThrows = False, isConnected = True\<rparr>,
      launch_r = Inr 0, newPage_r = Inr 1,
      setViewportSize_r = None, setContent_r = None, waitForFunction_r = None,
      pdf_r = Inr 150000,
      evaluate_r = Inr \<lparr>raw_codeBlocks = 0, raw_images = 0, raw_headings = 1,
                          raw_missingImages = []\<rparr>,
      close_r = (\<lambda>n. None)\<rparr>"

text \<open>
  The request of the fourth example in the description of the tool, a footer showing page
  numbers, with the defaults of the schema.
\<close>

definition input_footer :: MarkdownToPdfInput where
  "input_footer =
     input_default\<lparr>markdown_content := None, markdown_file_path := Some ''doc.md'',
       output_path := ''doc.pdf'',
       footer := Some \<lparr>hf_left = None, hf_center = None,
                        hf_right = Some ''Page {page} of {total}''\<rparr>\<rparr>"

definition env_pdf_fails :: env where
  "env_pdf_fails =
     env_ok\<lparr>pdf_r := Inl (Error ''ENOSPC: no space left on device, write'' (Some ''ENOSPC''))\<rparr>"

definition env_stats_fail :: env where
  "env_stats_fail =
     env_ok\<lparr>evaluate_r := Inl (Error ''page.evaluate: Execution context was destroyed'' None)\<rparr>"

definition world_crashed :: world where
  "world_crashed =
     \<lparr>browserInstance = Some 0, browserLaunchPromise = None, activePages = 0,
      launchesStarted = 1, launchesInFlight = [], trace = [LaunchCalled 0]\<rparr>"

definition probe_crashed :: BrowserProbe where
  "probe_crashed = \<lparr>contextsThrows = False, isConnected = False\<rparr>"

text \<open>\<open>k\<close> callers that reach the start of \<open>getBrowser\<close> one after the other.\<close>

fun enter_all :: "nat \<Rightarrow> world \<Rightarrow> getBrowser_state list \<times> world" where
  "enter_all 0 w = ([], w)"
| "enter_all (Suc k) w =
     (let (s, w1) = getBrowser_enter w;
          (ss, w2) = enter_all k w1
      in (s # ss, w2))"

section \<open>The table of contents in the words of the specification\<close>









section \<open>Properties of the browser instance management\<close>

lemma quota_message_text:
  "quota_message =
     ''Maximum concurrent pages (10) reached. Too many PDF conversions in progress. Please try again later.''"
  by code_simp

text \<open>
  C4. A call of \<open>acquirePage\<close> made while \<open>activePages\<close> is at least
  \<open>MAX_CONCURRENT_PAGES\<close> throws the quota error at once: the result does not depend
  on the health check, on a launch or on \<open>newPage\<close> (none of them is reached), and
  the world is the one the call found, with the same counter, the same browser, the same
  launch promise, no launch started and no event added.
\<close>

theorem acquirePage_quota_exceeded:
  assumes "activePages w \<ge> MAX_CONCURRENT_PAGES"
  shows "acquirePage probe_outcome launch_outcome newPage_outcome w =
           (Inl (Error ''Maximum concurrent pages (10) reached. Too many PDF conversions in progress. Please try again later.'' None), w)"
  using assms quota_message_text
  by (simp add: acquirePage_def new_Error_def)

theorem acquirePage_quota_exceeded_witness:
  "activePages \<lparr>browserInstance = Some 0, browserLaunchPromise = None, activePages = 10,
       launchesStarted = 1, launchesInFlight = [], trace = []\<rparr> \<ge> MAX_CONCURRENT_PAGES \<and>
   acquirePage \<lparr>contextsThrows = False, isConnected = True\<rparr> (Inr 0) (Inr 11)
     \<lparr>browserInstance = Some 0, browserLaunchPromise = None, activePages = 10,
       launchesStarted = 1, launchesInFlight = [], trace = []\<rparr> =
     (Inl (Error ''Maximum concurrent pages (10) reached. Too many PDF conversions in progress. Please try again later.'' None),
      \<lparr>browserInstance = Some 0, browserLaunchPromise = None, activePages = 10,
       launchesStarted = 1, launchesInFlight = [], trace = []\<rparr>)"
proof -
  have h: "activePages \<lparr>browserInstance = Some 0, browserLaunchPromise = None, activePages = 10,
       launchesStarted = 1, launchesInFlight = [], trace = []\<rparr> \<ge> MAX_CONCURRENT_PAGES"
    by (simp add: MAX_CONCURRENT_PAGES_def)
  from h acquirePage_quota_exceeded [OF h] show ?thesis by simp
qed

lemma releasePage_returns: "fst (releasePage page closeOutcome w) = None"
  by (simp add: releasePage_def Let_def split: option.splits)

lemma activePages_releasePage:
  "activePages (snd (releasePage page closeOutcome w)) = max 0 (activePages w - 1)"
  by (simp add: releasePage_def Let_def)

lemma trace_releasePage:
  "trace (snd (releasePage page closeOutcome w)) = trace w @ [PageCloseCalled page]"
  by (simp add: releasePage_def Let_def)

lemma releasePage_eq: "releasePage page closeOutcome w = (None, snd (releasePage page closeOutcome w))"
  using releasePage_returns [of page closeOutcome w] by (cases "releasePage page closeOutcome w") simp

lemma catch_and_finally_eq:
  "catch_and_finally page err e k w =
     (err, snd (releasePage page (close_r e (k + 1)) (snd (releasePage page (close_r e k) w))))"
proof -
  obtain w1 where 1: "releasePage page (close_r e k) w = (None, w1)"
    using releasePage_eq by blast
  show ?thesis by (simp add: catch_and_finally_def 1 split_beta)
qed

text \<open>
  C3, as the code has it. \<open>releasePage\<close> throws nothing and leaves the counter at
  zero or above, whatever the world it runs in, so also after any other operations. It
  keeps no record of the pages it has released: a second release of the same page lowers
  the counter again, and the two releases together lower it by two, down to zero at
  most.
\<close>

theorem releasePage_twice:
  "fst (releasePage page closeOutcome w) = None \<and>
   0 \<le> activePages (snd (releasePage page closeOutcome w)) \<and>
   activePages (snd (releasePage page second (snd (releasePage page first w)))) =
     max 0 (activePages w - 2)"
  by (simp add: activePages_releasePage releasePage_returns)

text \<open>
  With two pages handed out, releasing one of them twice takes the counter from 2 to 1
  and then to 0: the second release is not a no-op.
\<close>

theorem releasePage_twice_counterexample:
  "activePages (snd (releasePage 1 None
      \<lparr>browserInstance = Some 0, browserLaunchPromise = None, activePages = 2,
        launchesStarted = 1, launchesInFlight = [], trace = []\<rparr>)) = 1 \<and>
   activePages (snd (releasePage 1 None (snd (releasePage 1 None
      \<lparr>browserInstance = Some 0, browserLaunchPromise = None, activePages = 2,
        launchesStarted = 1, launchesInFlight = [], trace = []\<rparr>)))) = 0"
  by (simp add: activePages_releasePage)

section \<open>Properties of the conversion tool\<close>

lemma trim_all_space: "(\<forall>c\<in>set s. is_space c) \<Longrightarrow> trim s = []"
proof -
  assume "\<forall>c\<in>set s. is_space c"
  then have "dropWhile is_space s = []" by (induction s) auto
  then show ?thesis unfolding trim_def by (simp only: rev.simps dropWhile.simps)
qed

text \<open>
  C5. An input counts as providing a source when the field is a non-empty string, which
  is what \<open>filter(Boolean)\<close> keeps. When the number of sources provided is zero, or
  two or three, \<open>convertMarkdownToPdf\<close> returns the error response of the validation
  (message and suggestion), and the world is the one the call found: no launch, no page,
  the same counter, no event.
\<close>

theorem convert_rejects_source_count:
  assumes "length (filter truthy [markdown_content input, markdown_file_path input, markdown_url input]) \<noteq> 1"
  shows "convertMarkdownToPdf input e w =
           (if length (filter truthy [markdown_content input, markdown_file_path input, markdown_url input]) = 0
            then (Failure (ErrorResponse ''No input source provided''
                    ''Provide one of: markdown_content, markdown_file_path, or markdown_url'' None), w)
            else (Failure (ErrorResponse ''Multiple input sources provided''
                    ''Provide only ONE of: markdown_content, markdown_file_path, or markdown_url'' None), w))"
proof -
  let ?n = "length (filter truthy [markdown_content input, markdown_file_path input, markdown_url input])"
  let ?v = "validateInputSource (markdown_content input) (markdown_file_path input) (markdown_url input)"
  show ?thesis
  proof (cases "?n = 0")
    case True
    then have "?v = \<lparr>valid = False, v_error = Some ''No input source provided'',
         v_suggestion = Some ''Provide one of: markdown_content, markdown_file_path, or markdown_url''\<rparr>"
      unfolding validateInputSource_def Let_def by simp
    with True show ?thesis
      by (simp only: convertMarkdownToPdf_def convert_body_def Let_def) simp
  next
    case False
    with assms have "?n > 1" by linarith
    with False have "?v = \<lparr>valid = False, v_error = Some ''Multiple input sources provided'',
         v_suggestion = Some ''Provide only ONE of: markdown_content, markdown_file_path, or markdown_url''\<rparr>"
      unfolding validateInputSource_def Let_def by simp
    with False show ?thesis
      by (simp only: convertMarkdownToPdf_def convert_body_def Let_def) simp
  qed
qed

theorem convert_rejects_source_count_witness:
  "length (filter truthy [markdown_content (input_default\<lparr>markdown_url := Some ''https://example.org/a.md''\<rparr>),
      markdown_file_path (input_default\<lparr>markdown_url := Some ''https://example.org/a.md''\<rparr>),
      markdown_url (input_default\<lparr>markdown_url := Some ''https://example.org/a.md''\<rparr>)]) \<noteq> 1 \<and>
   convertMarkdownToPdf (input_default\<lparr>markdown_url := Some ''https://example.org/a.md''\<rparr>) env_ok world_initial =
     (Failure (ErrorResponse ''Multiple input sources provided''
        ''Provide only ONE of: markdown_content, markdown_file_path, or markdown_url'' None), world_initial)"
proof -
  let ?i = "input_default\<lparr>markdown_url := Some ''https://example.org/a.md''\<rparr>"
  have n: "length (filter truthy [markdown_content ?i, markdown_file_path ?i, markdown_url ?i]) = 2"
    by (simp add: input_default_def truthy_def)
  then have h: "length (filter truthy [markdown_content ?i, markdown_file_path ?i, markdown_url ?i]) \<noteq> 1"
    by simp
  from convert_rejects_source_count [OF h, of env_ok world_initial] n h show ?thesis
    by (simp add: input_default_def truthy_def)
qed

text \<open>
  C10. When the validation passes and the content that step 2 resolves, from whichever
  source, is empty or holds white space only, \<open>convertMarkdownToPdf\<close> returns the
  error response "Markdown content is empty" with its suggestion, and the world is the
  one the call found: \<open>generatePdf\<close> is not reached, so no directory is made, no
  browser launched, no page acquired and no file written. And the validation treats an
  empty \<open>markdown_content\<close> as it treats an absent one.
\<close>

theorem convert_empty_content:
  assumes "valid (validateInputSource (markdown_content input) (markdown_file_path input) (markdown_url input))"
    and "getContent input e = Inr (Inr content)"
    and "\<forall>c\<in>set content. is_space c"
  shows "convertMarkdownToPdf input e w =
           (Failure (ErrorResponse ''Markdown content is empty''
              ''Provide non-empty markdown content to convert'' None), w) \<and>
         validateInputSource (Some []) filePath url = validateInputSource None filePath url"
proof -
  from assms(3) have "trim content = []" by (rule trim_all_space)
  with assms(1,2) have "convertMarkdownToPdf input e w =
           (Failure (ErrorResponse ''Markdown content is empty''
              ''Provide non-empty markdown content to convert'' None), w)"
    by (simp add: convertMarkdownToPdf_def convert_body_def Let_def)
  moreover have "validateInputSource (Some []) filePath url = validateInputSource None filePath url"
    by (simp add: validateInputSource_def truthy_def)
  ultimately show ?thesis by simp
qed

theorem convert_empty_content_witness:
  "valid (validateInputSource (Some []) (Some ''notes.md'') None) \<and>
   getContent (input_default\<lparr>markdown_content := Some [], markdown_file_path := Some ''notes.md''\<rparr>)
      (env_ok\<lparr>readFile_r := Inr [CHR '' '', CHR 0x0A]\<rparr>) = Inr (Inr [CHR '' '', CHR 0x0A]) \<and>
   is_space CHR '' '' \<and> is_space CHR 0x0A \<and>
   convertMarkdownToPdf (input_default\<lparr>markdown_content := Some [], markdown_file_path := Some ''notes.md''\<rparr>)
      (env_ok\<lparr>readFile_r := Inr [CHR '' '', CHR 0x0A]\<rparr>) world_initial =
     (Failure (ErrorResponse ''Markdown content is empty''
        ''Provide non-empty markdown content to convert'' None), world_initial)"
proof -
  let ?i = "input_default\<lparr>markdown_content := Some [], markdown_file_path := Some ''notes.md''\<rparr>"
  let ?e = "env_ok\<lparr>readFile_r := Inr [CHR '' '', CHR 0x0A]\<rparr>"
  have v0: "valid (validateInputSource (Some []) (Some ''notes.md'') None)"
    by (simp add: validateInputSource_def truthy_def)
  then have v: "valid (validateInputSource (markdown_content ?i) (markdown_file_path ?i) (markdown_url ?i))"
    by (simp add: input_default_def)
  have g: "getContent ?i ?e = Inr (Inr [CHR '' '', CHR 0x0A])"
    by (simp add: getContent_def truthy_string_def input_default_def env_ok_def
          content_or_response_def readMarkdownFile_def)
  have s: "\<forall>c\<in>set [CHR '' '', CHR 0x0A]. is_space c"
    by (simp add: is_space_def)
  from convert_empty_content [OF v g s, of world_initial] v0 g s show ?thesis
    by (simp add: is_space_def)
qed

section \<open>Evaluation of the concrete requests\<close>

lemma digit_chars:
  "char_of (48 :: nat) = CHR ''0''" "char_of (49 :: nat) = CHR ''1''" "char_of (50 :: nat) = CHR ''2''"
  "char_of (51 :: nat) = CHR ''3''" "char_of (52 :: nat) = CHR ''4''" "char_of (53 :: nat) = CHR ''5''"
  "char_of (54 :: nat) = CHR ''6''" "char_of (55 :: nat) = CHR ''7''" "char_of (56 :: nat) = CHR ''8''"
  "char_of (57 :: nat) = CHR ''9''"
  by code_simp+

lemma ex_formatFileSize: "formatFileSize 150000 = ''146.5 KB''"
  by (simp add: formatFileSize_def toFixed1_def digits.simps digit_chars)

lemma ex_addHeadingIds: "addHeadingIds ''<h1>Title</h1>'' = ''<h1 id=\"title\">Title</h1>''"
  by code_simp

lemma ex_trim: "trim ''# Title'' = ''# Title''"
  by code_simp

lemmas pipeline_defs =
  convertMarkdownToPdf_def convert_body_def getContent_def truthy_string_def
  validateInputSource_def truthy_def buildConfig_def generatePdf_def
  prepare_def ensureOutputDirectory_def loadTheme_def generateHtmlTemplate_def or_default_def
  acquirePage_def getBrowser_def getBrowser_enter_def getBrowser_resume_def startLaunch_def
  await_result_def launch_settle_def isBrowserHealthy_def MAX_CONCURRENT_PAGES_def
  render_def pdfOptions_def defaultMargin_def gatherStats_def buildResponse_def releasePage_def
  catch_and_finally_def
  Let_def

lemma convert_default_ok:
  "convertMarkdownToPdf input_default env_ok world_initial =
     (Success (SuccessResponse ''out.pdf'' ''146.5 KB'' 0 1200 None),
      \<lparr>browserInstance = Some 0, browserLaunchPromise = None, activePages = 0,
        launchesStarted = 1, launchesInFlight = [],
        trace = [MkdirCalled ''out.pdf'', LaunchCalled 0, NewPageCalled 0, SetViewportSizeCalled 1,
          SetContentCalled 1
            \<lparr>doc_themeCss = ''body {}'', doc_codeHighlightCss = ''pre {}'', doc_customCss = [],
              doc_toc = [], doc_contentWithIds = ''<h1 id=\"title\">Title</h1>''\<rparr> ''networkidle'',
          PdfCalled 1
            \<lparr>pdf_path = ''out.pdf'', pdf_format = ''A4'', pdf_landscape = False,
              pdf_margin_top = ''2cm'', pdf_margin_bottom = ''2cm'', pdf_margin_left = ''2cm'',
              pdf_margin_right = ''2cm'', pdf_scale = 1, pdf_printBackground = True,
              pdf_displayHeaderFooter = False, pdf_headerTemplate = None, pdf_footerTemplate = None\<rparr>,
          PageCloseCalled 1]\<rparr>)"
  by (simp add: pipeline_defs input_default_def env_ok_def world_initial_def
        ex_formatFileSize ex_addHeadingIds ex_trim)

section \<open>Properties of the rendering pipeline\<close>

lemma activePages_startLaunch: "activePages (snd (startLaunch w)) = activePages w"
  by (simp add: startLaunch_def Let_def)

lemma activePages_launch_settle: "activePages (snd (launch_settle p outcome w)) = activePages w"
  by (simp add: launch_settle_def split: sum.splits)

lemma activePages_await_result: "activePages (snd (await_result r launched w)) = activePages w"
  by (simp add: await_result_def activePages_launch_settle split: getBrowser_result.splits option.splits)

lemma activePages_getBrowser: "activePages (snd (getBrowser probe_outcome launched w)) = activePages w"
  by (auto simp: getBrowser_def getBrowser_enter_def getBrowser_resume_def Let_def
        activePages_await_result activePages_startLaunch split_beta
      split: option.splits prod.splits getBrowser_state.splits)

lemma activePages_acquirePage:
  assumes "acquirePage probe_outcome launched newPage w = (Inr page, w')"
  shows "activePages w' = activePages w + 1"
proof -
  obtain r w1 where g: "getBrowser probe_outcome launched w = (r, w1)"
    by (cases "getBrowser probe_outcome launched w")
  with activePages_getBrowser [of probe_outcome launched w]
  have "activePages w1 = activePages w" by simp
  with assms g show ?thesis
    by (auto simp: acquirePage_def Let_def split: if_splits sum.splits)
qed

lemma activePages_prepare: "activePages (snd (prepare config e w)) = activePages w"
  by (simp add: prepare_def Let_def split: option.splits sum.splits)

lemma activePages_render: "activePages (snd (render page config fullHtml e w)) = activePages w"
  by (simp add: render_def Let_def split: option.splits sum.splits)

lemma render_stats_failure:
  assumes "setViewportSize_r e = None" "setContent_r e = None" "pdf_r e = Inr n"
    and "evaluate_r e = Inl err"
  shows "fst (render page config fullHtml e w) = Inl err"
    and "PdfCalled page (pdfOptions (today e) config) \<in> set (trace (snd (render page config fullHtml e w)))"
  using assms by (simp_all add: render_def Let_def gatherStats_def split: option.splits)

lemma render_pages:
  assumes "render page config fullHtml e w = (Inr (n, stats), w')"
  shows "s_pages stats = 0"
proof -
  from assms obtain raw where "gatherStats page (responseFormat config = ''detailed'') (evaluate_r e) = Inr stats"
    by (auto simp: render_def Let_def split: option.splits sum.splits)
  then show ?thesis
    by (auto simp: gatherStats_def Let_def split: sum.splits)
qed

lemma generatePdf_pages:
  assumes "generatePdf config e w = (Inr response, w')"
  shows "r_pages response = 0"
proof -
  obtain r1 w1 where p: "prepare config e w = (r1, w1)" by (cases "prepare config e w")
  with assms obtain fullHtml where r1: "r1 = Inr fullHtml"
    by (cases r1) (simp_all add: generatePdf_def)
  obtain r2 w2 where a: "acquirePage (probe e) (launch_r e) (newPage_r e) w1 = (r2, w2)"
    by (cases "acquirePage (probe e) (launch_r e) (newPage_r e) w1")
  with assms p r1 obtain page where r2: "r2 = Inr page"
    by (cases r2) (simp_all add: generatePdf_def)
  obtain r3 w3 where r: "render page config fullHtml e w2 = (r3, w3)"
    by (cases "render page config fullHtml e w2")
  with assms p r1 a r2 obtain n stats where r3: "r3 = Inr (n, stats)"
    by (cases r3) (auto simp: generatePdf_def catch_and_finally_eq)
  obtain w4 where "releasePage page (close_r e 0) w3 = (None, w4)"
    using releasePage_eq by blast
  with assms p r1 a r2 r r3 have "response = buildResponse config e n stats"
    by (simp add: generatePdf_def)
  moreover from r r3 have "s_pages stats = 0" by (auto dest: render_pages)
  ultimately show ?thesis by (simp add: buildResponse_def Let_def)
qed

lemma content_or_response_Failure:
  "content_or_response outcome = Inr (Inl r) \<Longrightarrow> \<exists>x. r = Failure x"
  by (auto simp: content_or_response_def split: sum.splits)

lemma getContent_Failure: "getContent input e = Inr (Inl r) \<Longrightarrow> \<exists>x. r = Failure x"
  by (auto simp: getContent_def split: option.splits dest: content_or_response_Failure)

lemma convert_body_Success:
  assumes "convert_body input e w = (Inr (Success response), w')"
  shows "\<exists>content. generatePdf (buildConfig input content) e w = (Inr response, w')"
proof -
  let ?v = "validateInputSource (markdown_content input) (markdown_file_path input) (markdown_url input)"
  from assms have v: "valid ?v"
    by (auto simp: convert_body_def Let_def split: if_splits)
  show ?thesis
  proof (cases "getContent input e")
    case (Inl thrown)
    with assms v show ?thesis by (simp add: convert_body_def Let_def)
  next
    case (Inr x)
    show ?thesis
    proof (cases x)
      case (Inl r)
      with Inr obtain f where "r = Failure f" by (auto dest: getContent_Failure)
      with assms v Inr Inl show ?thesis by (simp add: convert_body_def Let_def)
    next
      case (Inr content)
      obtain g w2 where g: "generatePdf (buildConfig input content) e w = (g, w2)"
        by (cases "generatePdf (buildConfig input content) e w")
      with assms v \<open>getContent input e = Inr x\<close> Inr have "g = Inr response \<and> w2 = w'"
        by (cases g) (auto simp: convert_body_def Let_def split: if_splits)
      with g show ?thesis by auto
    qed
  qed
qed

lemma convert_Success:
  assumes "convertMarkdownToPdf input e w = (Success response, w')"
  shows "convert_body input e w = (Inr (Success response), w')"
proof -
  obtain b w2 where b: "convert_body input e w = (b, w2)" by (cases "convert_body input e w")
  with assms show ?thesis
    by (cases b) (auto simp: convertMarkdownToPdf_def split: error.splits)
qed

text \<open>
  C7, as the code has it. Every successful conversion result reports the page count 0:
  \<open>gatherStats\<close> sets \<open>pages\<close> to 0 and \<open>generatePdf\<close> copies it into the
  response. The estimate from the file size, at least 1, is what the separate function
  \<open>estimatePageCount\<close> returns; the pipeline does not call it.
\<close>

theorem convert_pages_zero:
  "(convertMarkdownToPdf input e w = (Success response, w') \<longrightarrow> r_pages response = 0) \<and>
   estimatePageCount stat_outcome = max 1 \<lceil>real (getFileSize stat_outcome) / (75 * 1024)\<rceil> \<and>
   1 \<le> estimatePageCount stat_outcome"
proof -
  have "r_pages response = 0" if c: "convertMarkdownToPdf input e w = (Success response, w')"
  proof -
    from c have "convert_body input e w = (Inr (Success response), w')" by (rule convert_Success)
    then obtain content where "generatePdf (buildConfig input content) e w = (Inr response, w')"
      by (auto dest: convert_body_Success)
    then show ?thesis by (rule generatePdf_pages)
  qed
  moreover have "estimatePageCount stat_outcome = max 1 \<lceil>real (getFileSize stat_outcome) / (75 * 1024)\<rceil>"
    by (simp add: estimatePageCount_def Let_def)
  moreover have "1 \<le> estimatePageCount stat_outcome"
    by (simp add: estimatePageCount_def Let_def)
  ultimately show ?thesis by blast
qed

theorem convert_pages_zero_witness:
  "convertMarkdownToPdf input_default env_ok world_initial =
     (Success (SuccessResponse ''out.pdf'' ''146.5 KB'' 0 1200 None),
      snd (convertMarkdownToPdf input_default env_ok world_initial)) \<and>
   r_pages (SuccessResponse ''out.pdf'' ''146.5 KB'' 0 1200 None) = 0"
  using convert_pages_zero [of input_default env_ok world_initial
      "SuccessResponse ''out.pdf'' ''146.5 KB'' 0 1200 None"
      "snd (convertMarkdownToPdf input_default env_ok world_initial)"]
    convert_default_ok
  by simp

text \<open>
  A successful conversion whose PDF has 150000 bytes reports 0 pages; the estimate for
  this size would be 2.
\<close>

theorem convert_pages_counterexample:
  "fst (convertMarkdownToPdf input_default env_ok world_initial) =
     Success (SuccessResponse ''out.pdf'' ''146.5 KB'' 0 1200 None) \<and>
   pdf_r env_ok = Inr 150000 \<and>
   max 1 \<lceil>(150000 :: real) / (75 * 1024)\<rceil> = 2"
proof -
  have "max 1 \<lceil>(150000 :: real) / (75 * 1024)\<rceil> = 2" by simp
  moreover have "pdf_r env_ok = Inr 150000" by (simp add: env_ok_def)
  ultimately show ?thesis using convert_default_ok by simp
qed

lemma generatePdf_error_while_page_held:
  assumes p: "prepare config e w = (Inr fullHtml, w1)"
    and a: "acquirePage (probe e) (launch_r e) (newPage_r e) w1 = (Inr page, w2)"
    and r: "render page config fullHtml e w2 = (Inl err, w3)"
  shows "generatePdf config e w =
           (Inl err, snd (releasePage page (close_r e 1) (snd (releasePage page (close_r e 0) w3))))"
  using p a r by (simp add: generatePdf_def catch_and_finally_eq)

lemma generatePdf_success:
  assumes p: "prepare config e w = (Inr fullHtml, w1)"
    and a: "acquirePage (probe e) (launch_r e) (newPage_r e) w1 = (Inr page, w2)"
    and r: "render page config fullHtml e w2 = (Inr (n, stats), w3)"
  shows "generatePdf config e w =
           (Inr (buildResponse config e n stats), snd (releasePage page (close_r e 0) w3))"
proof -
  obtain w4 where 1: "releasePage page (close_r e 0) w3 = (None, w4)"
    using releasePage_eq by blast
  with p a r show ?thesis by (simp add: generatePdf_def)
qed

text \<open>
  The counter after a request that held a page: a successful request leaves it where it
  was; a request that failed while it held the page leaves it one lower, unless it was
  zero.
\<close>

lemma activePages_generatePdf_success:
  assumes p: "prepare config e w = (Inr fullHtml, w1)"
    and a: "acquirePage (probe e) (launch_r e) (newPage_r e) w1 = (Inr page, w2)"
    and r: "render page config fullHtml e w2 = (Inr (n, stats), w3)"
  shows "activePages (snd (generatePdf config e w)) = max 0 (activePages w)"
proof -
  from p activePages_prepare [of config e w] have "activePages w1 = activePages w" by simp
  moreover from a have "activePages w2 = activePages w1 + 1" by (rule activePages_acquirePage)
  moreover from r activePages_render [of page config fullHtml e w2]
  have "activePages w3 = activePages w2" by simp
  ultimately show ?thesis
    by (simp add: generatePdf_success [OF p a r] activePages_releasePage)
qed

lemma activePages_generatePdf_error:
  assumes p: "prepare config e w = (Inr fullHtml, w1)"
    and a: "acquirePage (probe e) (launch_r e) (newPage_r e) w1 = (Inr page, w2)"
    and r: "render page config fullHtml e w2 = (Inl err, w3)"
  shows "activePages (snd (generatePdf config e w)) = max 0 (activePages w - 1)"
proof -
  from p activePages_prepare [of config e w] have "activePages w1 = activePages w" by simp
  moreover from a have "activePages w2 = activePages w1 + 1" by (rule activePages_acquirePage)
  moreover from r activePages_render [of page config fullHtml e w2]
  have "activePages w3 = activePages w2" by simp
  ultimately show ?thesis
    by (simp add: generatePdf_error_while_page_held [OF p a r] activePages_releasePage)
qed

text \<open>
  C1, at an input where the code departs from it. A request starts while another request
  holds a page (the counter is 1), acquires page 1, and \<open>page.pdf\<close> throws. The error
  reaches the caller, but \<open>page.close()\<close> is called twice on page 1, once by the
  \<open>catch\<close> block and once by the \<open>finally\<close> block, and the counter ends at 0: one
  below its value before the call, while the other request still holds its page.
\<close>

theorem generatePdf_failure_releases_twice:
  "activePages world_busy = 1 \<and>
   generatePdf (buildConfig input_default ''# Title'') env_pdf_fails world_busy =
     (Inl (Error ''ENOSPC: no space left on device, write'' (Some ''ENOSPC'')),
      \<lparr>browserInstance = Some 0, browserLaunchPromise = None, activePages = 0,
        launchesStarted = 1, launchesInFlight = [],
        trace = [MkdirCalled ''out.pdf'', NewPageCalled 0, SetViewportSizeCalled 1,
          SetContentCalled 1
            \<lparr>doc_themeCss = ''body {}'', doc_codeHighlightCss = ''pre {}'', doc_customCss = [],
              doc_toc = [], doc_contentWithIds = ''<h1 id=\"title\">Title</h1>''\<rparr> ''networkidle'',
          PdfCalled 1
            \<lparr>pdf_path = ''out.pdf'', pdf_format = ''A4'', pdf_landscape = False,
              pdf_margin_top = ''2cm'', pdf_margin_bottom = ''2cm'', pdf_margin_left = ''2cm'',
              pdf_margin_right = ''2cm'', pdf_scale = 1, pdf_printBackground = True,
              pdf_displayHeaderFooter = False, pdf_headerTemplate = None, pdf_footerTemplate = None\<rparr>,
          PageCloseCalled 1, PageCloseCalled 1]\<rparr>)"
  by (simp add: pipeline_defs input_default_def env_ok_def env_pdf_fails_def world_busy_def
        ex_addHeadingIds)

lemma ex_prepare:
  "prepare (buildConfig input_default ''# Title'') (env_ok\<lparr>evaluate_r := x\<rparr>) w =
     (Inr \<lparr>doc_themeCss = ''body {}'', doc_codeHighlightCss = ''pre {}'', doc_customCss = [],
              doc_toc = [], doc_contentWithIds = ''<h1 id=\"title\">Title</h1>''\<rparr>,
      w\<lparr>trace := trace w @ [MkdirCalled ''out.pdf'']\<rparr>)"
  by (simp add: prepare_def buildConfig_def input_default_def env_ok_def Let_def
       ensureOutputDirectory_def loadTheme_def generateHtmlTemplate_def or_default_def ex_addHeadingIds)

text \<open>
  C6, as the code has it. When the PDF has been produced and \<open>page.evaluate\<close> of
  \<open>gatherStats\<close> throws, nothing catches the error before the \<open>catch\<close> block of
  \<open>generatePdf\<close>, which throws it again: \<open>generatePdf\<close> fails with the error of
  the statistics, the call of \<open>page.pdf\<close> has been made, and
  \<open>convertMarkdownToPdf\<close> returns an error response with the message of that error.
\<close>

theorem convert_stats_failure_fatal:
  assumes "valid (validateInputSource (markdown_content input) (markdown_file_path input) (markdown_url input))"
    and "getContent input e = Inr (Inr content)"
    and "trim content \<noteq> []"
    and "prepare (buildConfig input content) e w = (Inr fullHtml, w1)"
    and "acquirePage (probe e) (launch_r e) (newPage_r e) w1 = (Inr page, w2)"
    and "setViewportSize_r e = None" and "setContent_r e = None"
    and "pdf_r e = Inr n"
    and "evaluate_r e = Inl (Error m c)"
  shows "fst (generatePdf (buildConfig input content) e w) = Inl (Error m c) \<and>
         PdfCalled page (pdfOptions (today e) (buildConfig input content))
           \<in> set (trace (snd (convertMarkdownToPdf input e w))) \<and>
         fst (convertMarkdownToPdf input e w) =
           Failure (ErrorResponse m (getErrorSuggestion m) (if debug e then Some (Error m c) else None))"
proof -
  let ?config = "buildConfig input content"
  obtain r3 w3 where r: "render page ?config fullHtml e w2 = (r3, w3)"
    by (cases "render page ?config fullHtml e w2")
  from render_stats_failure [OF assms(6,7,8,9), of page ?config fullHtml w2] r
  have r3: "r3 = Inl (Error m c)"
    and t: "PdfCalled page (pdfOptions (today e) ?config) \<in> set (trace w3)"
    by simp_all
  from r r3 have g: "generatePdf ?config e w =
      (Inl (Error m c), snd (releasePage page (close_r e 1) (snd (releasePage page (close_r e 0) w3))))"
    using generatePdf_error_while_page_held [OF assms(4,5)] by simp
  with assms(1,2,3) have b: "convert_body input e w =
      (Inl (Error m c), snd (releasePage page (close_r e 1) (snd (releasePage page (close_r e 0) w3))))"
    by (simp add: convert_body_def Let_def)
  then have c: "convertMarkdownToPdf input e w =
      (Failure (ErrorResponse m (getErrorSuggestion m) (if debug e then Some (Error m c) else None)),
       snd (releasePage page (close_r e 1) (snd (releasePage page (close_r e 0) w3))))"
    by (simp add: convertMarkdownToPdf_def)
  from t have "PdfCalled page (pdfOptions (today e) ?config)
      \<in> set (trace (snd (releasePage page (close_r e 1) (snd (releasePage page (close_r e 0) w3)))))"
    by (simp add: trace_releasePage)
  with g c show ?thesis by simp
qed

text \<open>
  A request whose PDF is produced (150000 bytes) and whose statistics fail ends with an
  error response, not with a success that carries a warning.
\<close>

theorem convert_stats_failure_counterexample:
  "pdf_r env_stats_fail = Inr 150000 \<and>
   fst (convertMarkdownToPdf input_default env_stats_fail world_initial) =
     Failure (ErrorResponse ''page.evaluate: Execution context was destroyed''
       ''An unexpected error occurred. Check the error message for details and try again.'' None)"
proof -
  have "getErrorSuggestion ''page.evaluate: Execution context was destroyed'' =
      ''An unexpected error occurred. Check the error message for details and try again.''"
    by code_simp
  then show ?thesis
    by (simp add: pipeline_defs input_default_def env_ok_def env_stats_fail_def world_initial_def
        ex_addHeadingIds ex_trim)
qed

theorem convert_stats_failure_fatal_witness:
  "valid (validateInputSource (markdown_content input_default) (markdown_file_path input_default)
      (markdown_url input_default)) \<and>
   getContent input_default env_stats_fail = Inr (Inr ''# Title'') \<and>
   trim ''# Title'' \<noteq> [] \<and>
   pdf_r env_stats_fail = Inr 150000 \<and>
   evaluate_r env_stats_fail = Inl (Error ''page.evaluate: Execution context was destroyed'' None) \<and>
   fst (convertMarkdownToPdf input_default env_stats_fail world_initial) =
     Failure (ErrorResponse ''page.evaluate: Execution context was destroyed''
       (getErrorSuggestion ''page.evaluate: Execution context was destroyed'') None)"
proof -
  let ?w1 = "world_initial\<lparr>trace := trace world_initial @ [MkdirCalled ''out.pdf'']\<rparr>"
  have v: "valid (validateInputSource (markdown_content input_default)
      (markdown_file_path input_default) (markdown_url input_default))"
    by (simp add: validateInputSource_def truthy_def input_default_def)
  have g: "getContent input_default env_stats_fail = Inr (Inr ''# Title'')"
    by (simp add: getContent_def truthy_string_def input_default_def)
  have t: "trim ''# Title'' \<noteq> []" by (simp add: ex_trim)
  have p: "prepare (buildConfig input_default ''# Title'') env_stats_fail world_initial =
      (Inr \<lparr>doc_themeCss = ''body {}'', doc_codeHighlightCss = ''pre {}'', doc_customCss = [],
              doc_toc = [], doc_contentWithIds = ''<h1 id=\"title\">Title</h1>''\<rparr>, ?w1)"
    unfolding env_stats_fail_def by (rule ex_prepare)
  obtain w2 where a: "acquirePage (probe env_stats_fail) (launch_r env_stats_fail)
      (newPage_r env_stats_fail) ?w1 = (Inr 1, w2)"
    by (simp add: pipeline_defs env_stats_fail_def env_ok_def world_initial_def)
  have e1: "setViewportSize_r env_stats_fail = None" and e2: "setContent_r env_stats_fail = None"
    and e3: "pdf_r env_stats_fail = Inr 150000"
    and e4: "evaluate_r env_stats_fail = Inl (Error ''page.evaluate: Execution context was destroyed'' None)"
    and d: "\<not> debug env_stats_fail"
    by (simp_all add: env_stats_fail_def env_ok_def)
  from convert_stats_failure_fatal [OF v g t p a e1 e2 e3 e4] v g t e3 e4 d show ?thesis
    by simp
qed

section \<open>Properties of the header and footer templates\<close>

lemma expand_replacement_plain:
  "CHR ''$'' \<notin> set repl \<Longrightarrow> expand_replacement matched preceding following repl = repl"
  by (induction matched preceding following repl rule: expand_replacement.induct) auto

lemma replace_from_no_match:
  "pat \<noteq> [] \<Longrightarrow> hd pat \<notin> set s \<Longrightarrow> replace_from pat repl preceding s = s"
proof (induction s arbitrary: preceding)
  case Nil
  then show ?case by simp
next
  case (Cons c cs)
  from Cons.prems have "take (length pat) (c # cs) \<noteq> pat"
    by (cases pat) auto
  with Cons show ?case by simp
qed

lemma replace_all_whole:
  "pat \<noteq> [] \<Longrightarrow> CHR ''$'' \<notin> set repl \<Longrightarrow> replace_all pat repl pat = repl"
  by (cases pat) (simp_all add: replace_all_def expand_replacement_plain)

lemma substitute_page_total:
  "replaceTemplateVariables date_now ''{page} of {total}''
     \<lparr>var_page = Some (Num 2), var_total = Some (Num 5), var_date = None, var_title = None\<rparr> =
   ''2 of 5''"
  by (simp add: replaceTemplateVariables_def replace_all_def String_or_empty_def or_default_def
        String_of_int_def digits.simps digit_chars Let_def)

lemma substitute_title_default:
  "replaceTemplateVariables date_now ''{title}'' no_variables = ''Document''"
  by (simp add: replaceTemplateVariables_def replace_all_def String_or_empty_def or_default_def
        no_variables_def Let_def)

lemma substitute_date_default:
  assumes "CHR ''$'' \<notin> set date_now" and "CHR ''{'' \<notin> set date_now"
  shows "replaceTemplateVariables date_now ''{date}'' no_variables = date_now"
proof -
  have 1: "replace_all ''{page}'' [] ''{date}'' = ''{date}''"
    by (simp add: replace_all_def)
  have 2: "replace_all ''{total}'' [] ''{date}'' = ''{date}''"
    by (simp add: replace_all_def)
  have 3: "replace_all ''{date}'' date_now ''{date}'' = date_now"
    using assms(1) by (simp add: replace_all_whole)
  have 4: "replace_all ''{title}'' ''Document'' date_now = date_now"
    using assms(2) by (simp add: replace_all_def replace_from_no_match)
  have 5: "replace_all ''{date}'' [] ''{date}'' = []"
    by (simp add: replace_all_def)
  have 6: "replace_all ''{title}'' ''Document'' [] = []"
    by (simp add: replace_all_def)
  show ?thesis
    by (simp add: replaceTemplateVariables_def String_or_empty_def or_default_def
        no_variables_def Let_def 1 2 3 4 5 6)
qed

lemma substitute_page_blank:
  "replaceTemplateVariables date_now ''Page {page} of {total}'' no_variables = ''Page  of ''"
  by (simp add: replaceTemplateVariables_def replace_all_def String_or_empty_def or_default_def
        no_variables_def Let_def)

lemma substitute_empty:
  "replaceTemplateVariables date_now [] variables = []"
  by (simp add: replaceTemplateVariables_def replace_all_def Let_def)

lemma render_calls_pdf:
  assumes "setViewportSize_r e = None" and "setContent_r e = None"
  shows "PdfCalled page (pdfOptions (today e) config)
           \<in> set (trace (snd (render page config fullHtml e w)))"
  using assms by (simp add: render_def Let_def split: option.splits sum.splits)

lemma substitute_page_filled:
  "replaceTemplateVariables date_now ''Page {page} of {total}''
     \<lparr>var_page = Some (Num 2), var_total = Some (Num 5), var_date = None, var_title = None\<rparr> =
   ''Page 2 of 5''"
  by (simp add: replaceTemplateVariables_def replace_all_def String_or_empty_def or_default_def
        String_of_int_def digits.simps digit_chars Let_def)

text \<open>
  C9, at an input where the code departs from it: the request that the description of the
  tool gives as its example of a footer showing page numbers, with the file read and
  every stage succeeding. \<open>formatHeaderFooter\<close> calls \<open>replaceTemplateVariables\<close>
  with an empty object of variables, so the footer in the options of \<open>page.pdf\<close>
  holds "Page  of ": the placeholders of the page number and of the total are replaced
  by the empty string. Given the values 2 and 5, the same template becomes
  "Page 2 of 5".
\<close>

theorem footer_page_numbers_blank:
  "convertMarkdownToPdf input_footer env_ok world_initial =
     (Success (SuccessResponse ''doc.pdf'' ''146.5 KB'' 0 1200 None),
      \<lparr>browserInstance = Some 0, browserLaunchPromise = None, activePages = 0,
        launchesStarted = 1, launchesInFlight = [],
        trace = [MkdirCalled ''doc.pdf'', LaunchCalled 0, NewPageCalled 0, SetViewportSizeCalled 1,
          SetContentCalled 1
            \<lparr>doc_themeCss = ''body {}'', doc_codeHighlightCss = ''pre {}'', doc_customCss = [],
              doc_toc = [], doc_contentWithIds = ''<h1 id=\"title\">Title</h1>''\<rparr> ''networkidle'',
          PdfCalled 1
            \<lparr>pdf_path = ''doc.pdf'', pdf_format = ''A4'', pdf_landscape = False,
              pdf_margin_top = ''2cm'', pdf_margin_bottom = ''2cm'', pdf_margin_left = ''2cm'',
              pdf_margin_right = ''2cm'', pdf_scale = 1, pdf_printBackground = True,
              pdf_displayHeaderFooter = True, pdf_headerTemplate = None,
              pdf_footerTemplate = Some
                ([CHR 0x0A] @ ''    <div style=\"font-size: 10px; padding: 5px 20px; width: 100%;\">'' @ [CHR 0x0A] @
                 ''      <table style=\"width: 100%; border: none;\">'' @ [CHR 0x0A] @
                 ''        <tr>'' @ [CHR 0x0A] @
                 ''          <td style=\"text-align: left; width: 33%;\"></td>'' @ [CHR 0x0A] @
                 ''          <td style=\"text-align: center; width: 34%;\"></td>'' @ [CHR 0x0A] @
                 ''          <td style=\"text-align: right; width: 33%;\">Page  of </td>'' @ [CHR 0x0A] @
                 ''        </tr>'' @ [CHR 0x0A] @
                 ''      </table>'' @ [CHR 0x0A] @
                 ''    </div>'' @ [CHR 0x0A] @
                 ''  '')\<rparr>,
          PageCloseCalled 1]\<rparr>) \<and>
   replaceTemplateVariables (today env_ok) ''Page {page} of {total}''
     \<lparr>var_page = Some (Num 2), var_total = Some (Num 5), var_date = None, var_title = None\<rparr> =
     ''Page 2 of 5''"
proof -
  have "convertMarkdownToPdf input_footer env_ok world_initial =
     (Success (SuccessResponse ''doc.pdf'' ''146.5 KB'' 0 1200 None),
      \<lparr>browserInstance = Some 0, browserLaunchPromise = None, activePages = 0,
        launchesStarted = 1, launchesInFlight = [],
        trace = [MkdirCalled ''doc.pdf'', LaunchCalled 0, NewPageCalled 0, SetViewportSizeCalled 1,
          SetContentCalled 1
            \<lparr>doc_themeCss = ''body {}'', doc_codeHighlightCss = ''pre {}'', doc_customCss = [],
              doc_toc = [], doc_contentWithIds = ''<h1 id=\"title\">Title</h1>''\<rparr> ''networkidle'',
          PdfCalled 1
            \<lparr>pdf_path = ''doc.pdf'', pdf_format = ''A4'', pdf_landscape = False,
              pdf_margin_top = ''2cm'', pdf_margin_bottom = ''2cm'', pdf_margin_left = ''2cm'',
              pdf_margin_right = ''2cm'', pdf_scale = 1, pdf_printBackground = True,
              pdf_displayHeaderFooter = True, pdf_headerTemplate = None,
              pdf_footerTemplate = Some
                ([CHR 0x0A] @ ''    <div style=\"font-size: 10px; padding: 5px 20px; width: 100%;\">'' @ [CHR 0x0A] @
                 ''      <table style=\"width: 100%; border: none;\">'' @ [CHR 0x0A] @
                 ''        <tr>'' @ [CHR 0x0A] @
                 ''          <td style=\"text-align: left; width: 33%;\"></td>'' @ [CHR 0x0A] @
                 ''          <td style=\"text-align: center; width: 34%;\"></td>'' @ [CHR 0x0A] @
                 ''          <td style=\"text-align: right; width: 33%;\">Page  of </td>'' @ [CHR 0x0A] @
                 ''        </tr>'' @ [CHR 0x0A] @
                 ''      </table>'' @ [CHR 0x0A] @
                 ''    </div>'' @ [CHR 0x0A] @
                 ''  '')\<rparr>,
          PageCloseCalled 1]\<rparr>)"
    by (simp add: pipeline_defs input_footer_def input_default_def env_ok_def world_initial_def
          content_or_response_def readMarkdownFile_def formatHeaderFooter_def default_style_def
          substitute_page_blank substitute_empty ex_formatFileSize ex_addHeadingIds ex_trim)
  then show ?thesis using substitute_page_filled [of "today env_ok"] by (rule conjI)
qed

section \<open>Concurrent callers of the browser instance management\<close>

lemma getBrowser_enter_ticket:
  "browserLaunchPromise w = Some p \<Longrightarrow> getBrowser_enter w = (Done (Ticket p), w)"
  by (simp add: getBrowser_enter_def)

lemma enter_all_ticket:
  "browserLaunchPromise w = Some p \<Longrightarrow> enter_all k w = (replicate k (Done (Ticket p)), w)"
  by (induction k) (simp_all add: getBrowser_enter_ticket)

text \<open>
  With no browser and no launch promise, the first of \<open>k\<close> callers starts the one
  launch, and every caller gets the promise of that launch.
\<close>

lemma enter_all_single_launch:
  assumes "browserInstance w = None" and "browserLaunchPromise w = None"
  shows "enter_all (Suc k) w =
           (replicate (Suc k) (Done (Ticket (launchesStarted w))), snd (startLaunch w))"
    and "launchesInFlight (snd (enter_all (Suc k) w)) = launchesStarted w # launchesInFlight w"
    and "launchesStarted (snd (enter_all (Suc k) w)) = launchesStarted w + 1"
proof -
  have e: "getBrowser_enter w = (Done (Ticket (launchesStarted w)), snd (startLaunch w))"
    using assms by (simp add: getBrowser_enter_def startLaunch_def Let_def)
  have t: "browserLaunchPromise (snd (startLaunch w)) = Some (launchesStarted w)"
    by (simp add: startLaunch_def Let_def)
  show a: "enter_all (Suc k) w =
           (replicate (Suc k) (Done (Ticket (launchesStarted w))), snd (startLaunch w))"
    by (simp add: e enter_all_ticket [OF t])
  show "launchesInFlight (snd (enter_all (Suc k) w)) = launchesStarted w # launchesInFlight w"
    unfolding a by (simp add: startLaunch_def Let_def)
  show "launchesStarted (snd (enter_all (Suc k) w)) = launchesStarted w + 1"
    unfolding a by (simp add: startLaunch_def Let_def)
qed

text \<open>
  C2, at an input where the code departs from it. The browser of the module has crashed
  and two callers reach \<open>getBrowser\<close> before the health check of either has
  answered: both find no launch promise, both wait for the health check. The first to
  go on finds the browser unhealthy and starts launch 1; the second has passed the test
  of the launch promise already, finds the browser unhealthy too and starts launch 2,
  which replaces launch 1 in \<open>browserLaunchPromise\<close>. Two launches are in flight and
  the two callers hold different promises.
\<close>

theorem getBrowser_two_launches:
  "isBrowserHealthy probe_crashed = False \<and>
   (let (a1, w1) = getBrowser_enter world_crashed;
        (b1, w2) = getBrowser_enter w1;
        (a2, w3) = getBrowser_resume (isBrowserHealthy probe_crashed) w2;
        (b2, w4) = getBrowser_resume (isBrowserHealthy probe_crashed) w3
    in (a1, b1, a2, b2, launchesInFlight w3, launchesInFlight w4, browserLaunchPromise w4)) =
   (AwaitingHealth 0, AwaitingHealth 0, Ticket 1, Ticket 2, [1], [2, 1], Some 2)"
  by (simp add: getBrowser_enter_def getBrowser_resume_def startLaunch_def isBrowserHealthy_def
        world_crashed_def probe_crashed_def Let_def)

section \<open>Properties of the table of contents\<close>












lemma generateToc_no_headings:
  "collect_headings maxDepth (heading_scan htmlContent) = [] \<Longrightarrow> generateToc htmlContent maxDepth = []"
  by (simp add: generateToc_def Let_def)










































end
